theory Spec2Isabelle
  imports Main "HOL-Library.AList" "HOL-Library.Char_ord" "HOL-Library.List_Lexorder"
begin

section \<open>Go library functions used by the filesystem package\<close>

text \<open>
  Go strings are byte sequences; they are modelled as \<^typ>\<open>string\<close> (a list of
  8-bit characters). The functions of this section are the parts of the Go standard
  library (\<^verbatim>\<open>strings\<close>, \<^verbatim>\<open>path/filepath\<close> on a Unix target) that the package
  calls. They are written from the documented behaviour of the library.
\<close>

subsection \<open>Package strings\<close>

definition HasPrefix :: "string \<Rightarrow> string \<Rightarrow> bool" where
  "HasPrefix s p = (take (length p) s = p)"

definition HasSuffix :: "string \<Rightarrow> string \<Rightarrow> bool" where
  "HasSuffix s p = (length p \<le> length s \<and> drop (length s - length p) s = p)"

definition TrimPrefix :: "string \<Rightarrow> string \<Rightarrow> string" where
  "TrimPrefix s p = (if HasPrefix s p then drop (length p) s else s)"

definition TrimSuffix :: "string \<Rightarrow> string \<Rightarrow> string" where
  "TrimSuffix s p = (if HasSuffix s p then take (length s - length p) s else s)"

text \<open>\<^verbatim>\<open>strings.TrimLeft(s, cutset)\<close> and \<^verbatim>\<open>strings.TrimRight(s, cutset)\<close>.\<close>

definition TrimLeft :: "string \<Rightarrow> string \<Rightarrow> string" where
  "TrimLeft s cutset = dropWhile (\<lambda>c. c \<in> set cutset) s"

definition TrimRight :: "string \<Rightarrow> string \<Rightarrow> string" where
  "TrimRight s cutset = rev (dropWhile (\<lambda>c. c \<in> set cutset) (rev s))"

fun Contains :: "string \<Rightarrow> string \<Rightarrow> bool" where
  "Contains [] sub = (sub = [])"
| "Contains (c # cs) sub = (HasPrefix (c # cs) sub \<or> Contains cs sub)"

text \<open>
  \<^verbatim>\<open>strings.ToLower\<close>, as far as a comparison with ASCII strings can tell: the ASCII
  letters are lowered, and so are the two runes outside ASCII whose lower case is an
  ASCII letter, U+0130 (the bytes C4 B0, lowered to \<open>i\<close>) and U+212A (the bytes
  E2 84 AA, lowered to \<open>k\<close>). Go also lowers the other upper-case letters outside ASCII
  and replaces bytes that are not UTF-8 by U+FFFD: on such a string its result and this
  one differ in bytes outside ASCII only, and both hold such a byte.
\<close>

definition lowerByte :: "char \<Rightarrow> char" where
  "lowerByte c =
     (case map_of (zip ''ABCDEFGHIJKLMNOPQRSTUVWXYZ'' ''abcdefghijklmnopqrstuvwxyz'') c of
        None \<Rightarrow> c
      | Some l \<Rightarrow> l)"

fun ToLower :: "string \<Rightarrow> string" where
  "ToLower [] = []"
| "ToLower [a] = [lowerByte a]"
| "ToLower [a, b] =
     (if a = CHR 0xC4 \<and> b = CHR 0xB0 then ''i'' else lowerByte a # ToLower [b])"
| "ToLower (a # b # c # cs) =
     (if a = CHR 0xC4 \<and> b = CHR 0xB0 then CHR ''i'' # ToLower (c # cs)
      else if a = CHR 0xE2 \<and> b = CHR 0x84 \<and> c = CHR 0xAA then CHR ''k'' # ToLower cs
      else lowerByte a # ToLower (b # c # cs))"

subsection \<open>Package path/filepath (Unix)\<close>

text \<open>The elements of a path between separators; \<open>a//b\<close> has an empty element.\<close>

fun splitPath :: "string \<Rightarrow> string list" where
  "splitPath [] = [[]]"
| "splitPath (c # cs) =
     (if c = CHR ''/'' then [] # splitPath cs
      else (case splitPath cs of [] \<Rightarrow> [[c]] | e # es \<Rightarrow> (c # e) # es))"

fun joinPath :: "string list \<Rightarrow> string" where
  "joinPath [] = []"
| "joinPath [e] = e"
| "joinPath (e # es) = e @ CHR ''/'' # joinPath es"

text \<open>
  One step of \<^verbatim>\<open>filepath.Clean\<close> on the output written so far (innermost element
  first): a \<open>..\<close> element removes the element before it when there is one that is not
  itself \<open>..\<close>; at the start of a rooted path it is dropped, at the start of a relative
  path it is kept.
\<close>

fun cleanElem :: "bool \<Rightarrow> string list \<Rightarrow> string \<Rightarrow> string list" where
  "cleanElem rooted out e =
     (if e = [] \<or> e = ''.'' then out
      else if e = ''..'' then
        (case out of
           [] \<Rightarrow> if rooted then [] else [''..'']
         | t # ts \<Rightarrow> if t = ''..'' then ''..'' # out else ts)
      else e # out)"

definition Clean :: "string \<Rightarrow> string" where
  "Clean path =
     (let rooted = HasPrefix path ''/'';
          out = rev (foldl (cleanElem rooted) [] (splitPath path))
      in if rooted then CHR ''/'' # joinPath out
         else if out = [] then ''.''
         else joinPath out)"

text \<open>
  \<^verbatim>\<open>filepath.Join\<close>: empty elements in front are ignored, the rest is joined with
  separators and cleaned; the result is empty when every element is.
\<close>

definition Join :: "string list \<Rightarrow> string" where
  "Join elem =
     (case dropWhile (\<lambda>e. e = []) elem of
        [] \<Rightarrow> []
      | es \<Rightarrow> Clean (joinPath es))"

text \<open>\<^verbatim>\<open>filepath.Dir\<close>: everything up to the last separator, cleaned.\<close>

definition Dir :: "string \<Rightarrow> string" where
  "Dir path = Clean (rev (dropWhile (\<lambda>c. c \<noteq> CHR ''/'') (rev path)))"

text \<open>\<^verbatim>\<open>filepath.Base\<close>: the last element, after trailing separators are removed.\<close>

definition Base :: "string \<Rightarrow> string" where
  "Base path =
     (if path = [] then ''.''
      else
        (let p = rev (dropWhile (\<lambda>c. c = CHR ''/'') (rev path));
             b = rev (takeWhile (\<lambda>c. c \<noteq> CHR ''/'') (rev p))
         in if b = [] then ''/'' else b))"

text \<open>
  \<^verbatim>\<open>filepath.Ext\<close>: the suffix that starts at the last dot of the last element, empty
  when that element has no dot.
\<close>

definition Ext :: "string \<Rightarrow> string" where
  "Ext path =
     (let b = takeWhile (\<lambda>c. c \<noteq> CHR ''/'') (rev path)
      in if CHR ''.'' \<in> set b
         then CHR ''.'' # rev (takeWhile (\<lambda>c. c \<noteq> CHR ''.'') b)
         else [])"

section \<open>Content-type tables\<close>

text \<open>
  \<^verbatim>\<open>getContentType\<close> of \<^verbatim>\<open>local_storage.go\<close> and \<^verbatim>\<open>getContentTypeByExt\<close> of
  \<^verbatim>\<open>s3_storage.go\<close>: lower-case the extension, then a \<^verbatim>\<open>switch\<close> whose cases are
  tried in the order written. The two switches are kept as two definitions, one per
  source file.
\<close>

definition localSwitch :: "string \<Rightarrow> string" where
  "localSwitch ext =
     (if ext = ''.jpg'' \<or> ext = ''.jpeg'' then ''image/jpeg''
      else if ext = ''.png'' then ''image/png''
      else if ext = ''.gif'' then ''image/gif''
      else if ext = ''.webp'' then ''image/webp''
      else if ext = ''.svg'' then ''image/svg+xml''
      else if ext = ''.pdf'' then ''application/pdf''
      else if ext = ''.doc'' then ''application/msword''
      else if ext = ''.docx'' then
        ''application/vnd.openxmlformats-officedocument.wordprocessingml.document''
      else if ext = ''.xls'' then ''application/vnd.ms-excel''
      else if ext = ''.xlsx'' then
        ''application/vnd.openxmlformats-officedocument.spreadsheetml.sheet''
      else if ext = ''.txt'' then ''text/plain''
      else if ext = ''.html'' \<or> ext = ''.htm'' then ''text/html''
      else if ext = ''.css'' then ''text/css''
      else if ext = ''.js'' then ''application/javascript''
      else if ext = ''.json'' then ''application/json''
      else if ext = ''.xml'' then ''application/xml''
      else if ext = ''.zip'' then ''application/zip''
      else if ext = ''.tar'' then ''application/x-tar''
      else if ext = ''.gz'' \<or> ext = ''.gzip'' then ''application/gzip''
      else if ext = ''.mp3'' then ''audio/mpeg''
      else if ext = ''.mp4'' then ''video/mp4''
      else if ext = ''.wav'' then ''audio/wav''
      else if ext = ''.avi'' then ''video/x-msvideo''
      else if ext = ''.mov'' then ''video/quicktime''
      else if ext = ''.webm'' then ''video/webm''
      else ''application/octet-stream'')"

definition getContentType :: "string \<Rightarrow> string" where
  "getContentType ext = localSwitch (ToLower ext)"

definition s3Switch :: "string \<Rightarrow> string" where
  "s3Switch ext =
     (if ext = ''.jpg'' \<or> ext = ''.jpeg'' then ''image/jpeg''
      else if ext = ''.png'' then ''image/png''
      else if ext = ''.gif'' then ''image/gif''
      else if ext = ''.webp'' then ''image/webp''
      else if ext = ''.svg'' then ''image/svg+xml''
      else if ext = ''.pdf'' then ''application/pdf''
      else if ext = ''.doc'' then ''application/msword''
      else if ext = ''.docx'' then
        ''application/vnd.openxmlformats-officedocument.wordprocessingml.document''
      else if ext = ''.xls'' then ''application/vnd.ms-excel''
      else if ext = ''.xlsx'' then
        ''application/vnd.openxmlformats-officedocument.spreadsheetml.sheet''
      else if ext = ''.txt'' then ''text/plain''
      else if ext = ''.html'' \<or> ext = ''.htm'' then ''text/html''
      else if ext = ''.css'' then ''text/css''
      else if ext = ''.js'' then ''application/javascript''
      else if ext = ''.json'' then ''application/json''
      else if ext = ''.xml'' then ''application/xml''
      else if ext = ''.zip'' then ''application/zip''
      else if ext = ''.tar'' then ''application/x-tar''
      else if ext = ''.gz'' \<or> ext = ''.gzip'' then ''application/gzip''
      else if ext = ''.mp3'' then ''audio/mpeg''
      else if ext = ''.mp4'' then ''video/mp4''
      else if ext = ''.wav'' then ''audio/wav''
      else if ext = ''.avi'' then ''video/x-msvideo''
      else if ext = ''.mov'' then ''video/quicktime''
      else if ext = ''.webm'' then ''video/webm''
      else ''application/octet-stream'')"

definition getContentTypeByExt :: "string \<Rightarrow> string" where
  "getContentTypeByExt ext = s3Switch (ToLower ext)"

text \<open>The case labels of the two switches (they are the same 28 strings).\<close>

definition knownExtensions :: "string list" where
  "knownExtensions =
     [''.jpg'', ''.jpeg'', ''.png'', ''.gif'', ''.webp'', ''.svg'', ''.pdf'', ''.doc'',
      ''.docx'', ''.xls'', ''.xlsx'', ''.txt'', ''.html'', ''.htm'', ''.css'', ''.js'',
      ''.json'', ''.xml'', ''.zip'', ''.tar'', ''.gz'', ''.gzip'', ''.mp3'', ''.mp4'',
      ''.wav'', ''.avi'', ''.mov'', ''.webm'']"

section \<open>Handler-layer path sanitization (handler.go)\<close>

text \<open>\<^verbatim>\<open>sanitizePath\<close>, lines 444 to 454.\<close>

definition sanitizePath :: "string \<Rightarrow> string" where
  "sanitizePath path = TrimPrefix (TrimPrefix (Clean path) ''../'') ''/''"

text \<open>
  The path that \<^verbatim>\<open>GetFileHandler\<close>, \<^verbatim>\<open>GetFileInfoHandler\<close>, \<^verbatim>\<open>DeleteFileHandler\<close>
  and \<^verbatim>\<open>ListFilesHandler\<close> pass to the provider: the sanitized request path joined
  to the handler's base path.
\<close>

definition handlerFullPath :: "string \<Rightarrow> string \<Rightarrow> string" where
  "handlerFullPath handlerBase path = Join [handlerBase, sanitizePath path]"

text \<open>
  The custom-path cleaning of \<^verbatim>\<open>UploadHandler\<close>, lines 103 to 109: a non-empty form
  value is cleaned and loses one leading \<open>../\<close>.
\<close>

definition uploadCustomPath :: "string \<Rightarrow> string" where
  "uploadCustomPath customPath =
     (if customPath \<noteq> [] then TrimPrefix (Clean customPath) ''../'' else customPath)"

text \<open>
  \<^verbatim>\<open>sanitizeFilename\<close>: the base name, with each of the bytes
  \<^verbatim>\<open>/ \ : * ? " < > | %\<close> replaced by an underscore.
\<close>

definition sanitizeFilename :: "string \<Rightarrow> string" where
  "sanitizeFilename filename =
     map (\<lambda>c. if c \<in> set [CHR ''/'', CHR 0x5C, CHR '':'', CHR ''*'', CHR ''?'', CHR 0x22,
                               CHR ''<'', CHR ''>'', CHR ''|'', CHR ''%'']
              then CHR ''_'' else c)
       (Base filename)"

text \<open>
  The destination of an upload whose file name is kept (\<^verbatim>\<open>UseUUID\<close> off): the join
  of the handler's base path, the cleaned custom path and the sanitized file name.
\<close>

definition uploadFullPath :: "string \<Rightarrow> string \<Rightarrow> string \<Rightarrow> string" where
  "uploadFullPath handlerBase customPath filename =
     Join [handlerBase, uploadCustomPath customPath, sanitizeFilename filename]"

section \<open>Errors (pkg/filesystem/errors/errors.go)\<close>

abbreviation StatusBadRequest :: nat where "StatusBadRequest \<equiv> 400"
abbreviation StatusUnauthorized :: nat where "StatusUnauthorized \<equiv> 401"
abbreviation StatusForbidden :: nat where "StatusForbidden \<equiv> 403"
abbreviation StatusNotFound :: nat where "StatusNotFound \<equiv> 404"
abbreviation StatusConflict :: nat where "StatusConflict \<equiv> 409"
abbreviation StatusUnprocessableEntity :: nat where "StatusUnprocessableEntity \<equiv> 422"
abbreviation StatusInternalServerError :: nat where "StatusInternalServerError \<equiv> 500"
abbreviation StatusServiceUnavailable :: nat where "StatusServiceUnavailable \<equiv> 503"

abbreviation ErrCodeBadRequest :: string where "ErrCodeBadRequest \<equiv> ''BAD_REQUEST''"
abbreviation ErrCodeInternalError :: string where "ErrCodeInternalError \<equiv> ''INTERNAL_ERROR''"
abbreviation ErrCodeFileNotFound :: string where "ErrCodeFileNotFound \<equiv> ''FILE_NOT_FOUND''"
abbreviation ErrCodeFileAlreadyExists :: string where
  "ErrCodeFileAlreadyExists \<equiv> ''FILE_ALREADY_EXISTS''"
abbreviation ErrCodeInvalidPath :: string where "ErrCodeInvalidPath \<equiv> ''INVALID_PATH''"

text \<open>
  The errors the package receives from outside: an error number of the operating system,
  an error of the S3 client (the HTTP status of the response, 0 when there was none, and
  the text its \<^verbatim>\<open>Error()\<close> method returns), and a failure of the uploaded multipart
  file. \<^verbatim>\<open>AppError\<close> wraps any of them, or another \<^verbatim>\<open>AppError\<close>, as \<^verbatim>\<open>Internal\<close>.
  \<^verbatim>\<open>Details\<close> holds the list of validation messages (empty for \<^verbatim>\<open>nil\<close>).
\<close>

datatype errno = ENOENT | EACCES | ENOTDIR | EISDIR | EEXIST | ENOTEMPTY | EIO

record sdk_error =
  sdkStatus :: nat
  sdkText :: string

datatype error =
    OsError errno
  | SdkError sdk_error
  | MultipartError
  | App AppError
and AppError =
    AppError (Code: string) (Message: string) (Details: "string list") (HTTPCode: nat)
      (Internal: "error option")

definition statusToErrorCode :: "(nat \<times> string) list" where
  "statusToErrorCode =
     [(StatusBadRequest, ErrCodeBadRequest),
      (StatusUnauthorized, ''UNAUTHORIZED''),
      (StatusForbidden, ''FORBIDDEN''),
      (StatusNotFound, ''NOT_FOUND''),
      (StatusConflict, ''CONFLICT''),
      (StatusUnprocessableEntity, ''VALIDATION_ERROR''),
      (StatusInternalServerError, ErrCodeInternalError),
      (StatusServiceUnavailable, ''SERVICE_UNAVAILABLE'')]"

text \<open>A Go map read at a missing key gives the zero value, here the empty string.\<close>

definition errorCodeOf :: "nat \<Rightarrow> string" where
  "errorCodeOf httpCode =
     (case map_of statusToErrorCode httpCode of
        Some code \<Rightarrow> code
      | None \<Rightarrow>
          (case map_of statusToErrorCode StatusInternalServerError of
             Some code \<Rightarrow> code
           | None \<Rightarrow> []))"

definition NewError :: "nat \<Rightarrow> string \<Rightarrow> AppError" where
  "NewError httpCode message = AppError (errorCodeOf httpCode) message [] httpCode None"

definition NewErrorWithDetails :: "nat \<Rightarrow> string \<Rightarrow> string list \<Rightarrow> AppError" where
  "NewErrorWithDetails httpCode message details =
     (case NewError httpCode message of
        AppError c m _ h i \<Rightarrow> AppError c m details h i)"

definition NewCustomError :: "nat \<Rightarrow> string \<Rightarrow> string \<Rightarrow> AppError" where
  "NewCustomError httpCode code message = AppError code message [] httpCode None"

definition WrapError :: "error \<Rightarrow> nat \<Rightarrow> string \<Rightarrow> AppError" where
  "WrapError err httpCode message =
     (case NewError httpCode message of
        AppError c m d h _ \<Rightarrow> AppError c m d h (Some err))"

definition FileNotFoundError :: "string \<Rightarrow> AppError" where
  "FileNotFoundError path =
     NewCustomError StatusNotFound ErrCodeFileNotFound (''File not found: '' @ path)"

section \<open>FileInfo (provider.go)\<close>

text \<open>Times are seconds on some clock; \<^verbatim>\<open>int64\<close> sizes are integers.\<close>

record FileInfo =
  Name :: string
  Size :: int
  LastModified :: nat
  URL :: string
  ContentType :: string
  IsDirectory :: bool

text \<open>
  The uploaded file, \<^verbatim>\<open>*multipart.FileHeader\<close>. \<^verbatim>\<open>Open\<close> fails or gives a reader;
  the reader delivers \<open>bytes\<close> and then ends, with a read error when \<open>readError\<close> is
  set; \<open>seekError\<close> says whether \<^verbatim>\<open>Seek\<close> on it fails.
\<close>

record multipart_File =
  bytes :: string
  readError :: bool
  seekError :: bool

record FileHeader =
  Filename :: string
  HeaderSize :: int
  Open :: "multipart_File option"

section \<open>Configuration (Config and Validate)\<close>

record Config =
  StorageType :: string
  LocalStoragePath :: string
  LocalBaseURL :: string
  CreateLocalDirs :: bool
  S3Endpoint :: string
  S3AccessKey :: string
  S3SecretKey :: string
  S3Bucket :: string
  S3BasePrefix :: string
  S3BaseURL :: string
  S3Region :: string
  S3UseSSL :: bool
  S3PathStyle :: bool
  UploadMaxSizeMB :: int
  AllowedFileTypes :: "string list"
  UseUUID :: bool
  TimeoutSecs :: int

definition DefaultConfig :: Config where
  "DefaultConfig =
     \<lparr>StorageType = ''local'', LocalStoragePath = ''./storage/uploads'', LocalBaseURL = [],
      CreateLocalDirs = True, S3Endpoint = [], S3AccessKey = [], S3SecretKey = [],
      S3Bucket = [], S3BasePrefix = [], S3BaseURL = [], S3Region = [], S3UseSSL = False,
      S3PathStyle = False, UploadMaxSizeMB = 10,
      AllowedFileTypes =
        [''.jpg'', ''.jpeg'', ''.png'', ''.gif'', ''.pdf'', ''.doc'', ''.docx'', ''.xls'',
         ''.xlsx''],
      UseUUID = True, TimeoutSecs = 30\<rparr>"

text \<open>\<^verbatim>\<open>Validate\<close> appends one message per failed check, in this order.\<close>

definition Validate :: "Config \<Rightarrow> string list" where
  "Validate c =
     (if StorageType c \<noteq> ''local'' \<and> StorageType c \<noteq> ''s3''
      then [''Invalid storage type. Must be 'local' or 's3'' @ [CHR 0x27]] else [])
     @ (if StorageType c = ''s3'' then
          (if S3Bucket c = [] then [''S3 bucket name is required when using S3 storage'']
           else [])
          @ (if S3Endpoint c \<noteq> [] then
               (if S3AccessKey c = []
                then [''S3 access key is required when using a custom S3 endpoint'']
                else [])
               @ (if S3SecretKey c = []
                  then [''S3 secret key is required when using a custom S3 endpoint'']
                  else [])
             else [])
        else [])
     @ (if UploadMaxSizeMB c \<le> 0 then [''Upload max size must be greater than 0''] else [])
     @ (if TimeoutSecs c \<le> 0 then [''Timeout seconds must be greater than 0''] else [])"

section \<open>The local file system\<close>

text \<open>
  The operating system as the local backend sees it: the files and directories by their
  cleaned path, a table of paths on which every system call fails with a given error
  number (permission denied, I/O error, ...), the size the system reports for a
  directory, and the clock that stamps modifications. Every path the backend passes to
  the system is the result of \<^verbatim>\<open>filepath.Join\<close> or \<^verbatim>\<open>filepath.Dir\<close>, hence clean,
  so a path names its node without symbolic links. The walk to a path starts below the
  root or the working directory, which need no entry for it.
\<close>

datatype node = File string nat | Directory nat

record filesystem =
  entries :: "(string \<times> node) list"
  faults :: "(string \<times> errno) list"
  dirSize :: int
  clock :: nat

record os_FileInfo =
  fiName :: string
  fiSize :: int
  fiModTime :: nat
  fiIsDir :: bool

definition statNode :: "filesystem \<Rightarrow> string \<Rightarrow> node \<Rightarrow> os_FileInfo" where
  "statNode fs p n =
     (case n of
        File data t \<Rightarrow> \<lparr>fiName = Base p, fiSize = int (length data), fiModTime = t,
                         fiIsDir = False\<rparr>
      | Directory t \<Rightarrow> \<lparr>fiName = Base p, fiSize = dirSize fs, fiModTime = t,
                         fiIsDir = True\<rparr>)"

text \<open>
  The directories on the way to a clean path, outermost first: for \<open>/tmp/x/a\<close> they
  are \<open>/tmp\<close> and \<open>/tmp/x\<close>, for \<open>a/b\<close> it is \<open>a\<close>.
\<close>

fun dirPrefixes :: "string \<Rightarrow> string \<Rightarrow> string list" where
  "dirPrefixes pre [] = []"
| "dirPrefixes pre (c # cs) =
     (if c = CHR ''/'' \<and> pre \<noteq> [] then pre # dirPrefixes (pre @ [c]) cs
      else dirPrefixes (pre @ [c]) cs)"

definition ancestors :: "string \<Rightarrow> string list" where
  "ancestors p = dirPrefixes [] p"

text \<open>
  Walking down to a path: the first directory on the way that is missing gives
  \<open>ENOENT\<close>, the first that is a regular file gives \<open>ENOTDIR\<close>.
\<close>

fun walk :: "(string \<times> node) list \<Rightarrow> string list \<Rightarrow> errno option" where
  "walk es [] = None"
| "walk es (a # as) =
     (case map_of es a of
        None \<Rightarrow> Some ENOENT
      | Some (File _ _) \<Rightarrow> Some ENOTDIR
      | Some (Directory _) \<Rightarrow> walk es as)"

text \<open>
  What a system call finds at a clean path: the error of the fault table or of the walk,
  or else the node there, if any.
\<close>

definition lookupNode :: "filesystem \<Rightarrow> string \<Rightarrow> errno + node option" where
  "lookupNode fs p =
     (case map_of (faults fs) p of
        Some e \<Rightarrow> Inl e
      | None \<Rightarrow>
          (case walk (entries fs) (ancestors p) of
             Some e \<Rightarrow> Inl e
           | None \<Rightarrow> Inr (map_of (entries fs) p)))"

definition os_Stat :: "filesystem \<Rightarrow> string \<Rightarrow> errno + os_FileInfo" where
  "os_Stat fs path =
     (let p = Clean path in
      case lookupNode fs p of
        Inl e \<Rightarrow> Inl e
      | Inr None \<Rightarrow> Inl ENOENT
      | Inr (Some n) \<Rightarrow> Inr (statNode fs p n))"

text \<open>\<^verbatim>\<open>os.Mkdir\<close>: the directory must not exist and its parent must be a directory.\<close>

definition os_Mkdir :: "filesystem \<Rightarrow> string \<Rightarrow> errno option \<times> filesystem" where
  "os_Mkdir fs path =
     (let p = Clean path in
      case lookupNode fs p of
        Inl e \<Rightarrow> (Some e, fs)
      | Inr (Some _) \<Rightarrow> (Some EEXIST, fs)
      | Inr None \<Rightarrow>
          (None, fs\<lparr>entries := AList.update p (Directory (clock fs)) (entries fs)\<rparr>))"

text \<open>
  \<^verbatim>\<open>os.MkdirAll\<close>: nothing to do when the path is a directory already; otherwise the
  parent (the path up to its last element, when that is not empty) is made first, then
  the directory itself; a failure of the last step is forgiven when the directory is
  there after all.
\<close>

definition mkdirParent :: "string \<Rightarrow> string" where
  "mkdirParent path =
     rev (dropWhile (\<lambda>c. c \<noteq> CHR ''/'') (dropWhile (\<lambda>c. c = CHR ''/'') (rev path)))"

function os_MkdirAll :: "filesystem \<Rightarrow> string \<Rightarrow> errno option \<times> filesystem" where
  "os_MkdirAll fs path =
     (case os_Stat fs path of
        Inr dir \<Rightarrow> if fiIsDir dir then (None, fs) else (Some ENOTDIR, fs)
      | Inl _ \<Rightarrow>
          (case (if mkdirParent path \<noteq> [] then os_MkdirAll fs (mkdirParent path)
                 else (None, fs)) of
             (Some e, fs1) \<Rightarrow> (Some e, fs1)
           | (None, fs1) \<Rightarrow>
               (case os_Mkdir fs1 path of
                  (None, fs2) \<Rightarrow> (None, fs2)
                | (Some e, fs2) \<Rightarrow>
                    (case os_Stat fs2 path of
                       Inr dir1 \<Rightarrow> if fiIsDir dir1 then (None, fs2) else (Some e, fs2)
                     | Inl _ \<Rightarrow> (Some e, fs2)))))"
  by pat_completeness auto
termination
proof (relation "measure (\<lambda>(fs, path). length path)")
  show "wf (measure (\<lambda>(fs :: filesystem, path :: string). length path))"
    by simp
next
  fix fs :: filesystem and path :: string and e :: errno
  assume ne: "mkdirParent path \<noteq> []"
  have shorter: "length (mkdirParent path) < length path"
  proof (cases "rev path")
    case Nil
    with ne show ?thesis by (simp add: mkdirParent_def)
  next
    case (Cons c cs)
    then have len: "length path = Suc (length cs)"
      by (metis length_Cons length_rev)
    show ?thesis
    proof (cases "c = CHR ''/''")
      case True
      have "length (dropWhile (\<lambda>c. c \<noteq> CHR ''/'') (dropWhile (\<lambda>c. c = CHR ''/'') cs))
              \<le> length (dropWhile (\<lambda>c. c = CHR ''/'') cs)"
        by (rule length_dropWhile_le)
      also have "\<dots> \<le> length cs"
        by (rule length_dropWhile_le)
      finally show ?thesis using Cons True len by (simp add: mkdirParent_def)
    next
      case False
      have "length (dropWhile (\<lambda>c. c \<noteq> CHR ''/'') cs) \<le> length cs"
        by (rule length_dropWhile_le)
      then show ?thesis using Cons False len by (simp add: mkdirParent_def)
    qed
  qed
  then show "((fs, mkdirParent path), fs, path) \<in> measure (\<lambda>(fs, path). length path)"
    by simp
qed

declare os_MkdirAll.simps [simp del]

text \<open>
  \<^verbatim>\<open>os.Create\<close> makes the file or truncates it (the parent must be a directory);
  \<^verbatim>\<open>io.Copy\<close> into the created file writes the bytes read; \<^verbatim>\<open>os.Open\<close> gives what
  reading the file yields; \<^verbatim>\<open>os.Remove\<close> removes a file or an empty directory.
\<close>

definition os_Create :: "filesystem \<Rightarrow> string \<Rightarrow> errno option \<times> filesystem" where
  "os_Create fs path =
     (let p = Clean path in
      case lookupNode fs p of
        Inl e \<Rightarrow> (Some e, fs)
      | Inr (Some (Directory _)) \<Rightarrow> (Some EISDIR, fs)
      | Inr _ \<Rightarrow> (None, fs\<lparr>entries := AList.update p (File [] (clock fs)) (entries fs)\<rparr>))"

definition io_Copy :: "filesystem \<Rightarrow> string \<Rightarrow> string \<Rightarrow> filesystem" where
  "io_Copy fs path data =
     fs\<lparr>entries := AList.update (Clean path) (File data (clock fs)) (entries fs)\<rparr>"

definition os_Open :: "filesystem \<Rightarrow> string \<Rightarrow> errno + string" where
  "os_Open fs path =
     (case lookupNode fs (Clean path) of
        Inl e \<Rightarrow> Inl e
      | Inr None \<Rightarrow> Inl ENOENT
      | Inr (Some (Directory _)) \<Rightarrow> Inl EISDIR
      | Inr (Some (File data _)) \<Rightarrow> Inr data)"

definition children :: "filesystem \<Rightarrow> string \<Rightarrow> (string \<times> node) list" where
  "children fs p = filter (\<lambda>(k, n). Dir k = p \<and> k \<noteq> p) (AList.clearjunk (entries fs))"

definition os_Remove :: "filesystem \<Rightarrow> string \<Rightarrow> errno option \<times> filesystem" where
  "os_Remove fs path =
     (let p = Clean path in
      case lookupNode fs p of
        Inl e \<Rightarrow> (Some e, fs)
      | Inr None \<Rightarrow> (Some ENOENT, fs)
      | Inr (Some (Directory _)) \<Rightarrow>
          if children fs p = [] then (None, fs\<lparr>entries := AList.delete p (entries fs)\<rparr>)
          else (Some ENOTEMPTY, fs)
      | Inr (Some (File _ _)) \<Rightarrow> (None, fs\<lparr>entries := AList.delete p (entries fs)\<rparr>))"

text \<open>
  \<^verbatim>\<open>os.ReadDir\<close>: the entries of a directory sorted by file name; \<^verbatim>\<open>Info\<close> of an
  entry may fail (it does not in this model, where nothing runs in between).
\<close>

record DirEntry =
  deName :: string
  deInfo :: "errno + os_FileInfo"

definition os_ReadDir :: "filesystem \<Rightarrow> string \<Rightarrow> errno + DirEntry list" where
  "os_ReadDir fs path =
     (let p = Clean path in
      case lookupNode fs p of
        Inl e \<Rightarrow> Inl e
      | Inr None \<Rightarrow> Inl ENOENT
      | Inr (Some (File _ _)) \<Rightarrow> Inl ENOTDIR
      | Inr (Some (Directory _)) \<Rightarrow>
          Inr (sort_key deName
                (map (\<lambda>(k, n). \<lparr>deName = Base k, deInfo = Inr (statNode fs k n)\<rparr>)
                   (children fs p))))"


section \<open>The local backend (local_storage.go)\<close>

record LocalStorage =
  basePath :: string
  baseURL :: string
  createDirectories :: bool

record LocalStorageConfig =
  BasePath :: string
  BaseURL :: string
  CreateDirectories :: bool

definition NewLocalStorage ::
  "LocalStorageConfig \<Rightarrow> filesystem \<Rightarrow> (AppError + LocalStorage) \<times> filesystem" where
  "NewLocalStorage config fs =
     (let base = (if BasePath config = [] then ''./storage/uploads'' else BasePath config) in
      case os_MkdirAll fs base of
        (Some e, fs1) \<Rightarrow>
          (Inl (WrapError (OsError e) StatusInternalServerError
                  (''Failed to create base directory: '' @ base)), fs1)
      | (None, fs1) \<Rightarrow>
          (Inr \<lparr>basePath = base, baseURL = BaseURL config,
                 createDirectories = CreateDirectories config\<rparr>, fs1))"

text \<open>The URL of a path, as each operation of the backend builds it.\<close>

definition localURL :: "LocalStorage \<Rightarrow> string \<Rightarrow> string" where
  "localURL ls path =
     (if baseURL ls \<noteq> [] then TrimRight (baseURL ls) ''/'' @ ''/'' @ TrimLeft path ''/''
      else path)"

text \<open>
  \<^verbatim>\<open>Upload\<close>. The first step makes the directory of the destination, or checks that
  it is there (\<^verbatim>\<open>os.IsNotExist\<close> holds of \<open>ENOENT\<close> only; any other outcome of that
  \<^verbatim>\<open>Stat\<close> lets the upload go on).
\<close>

definition Local_Upload_dir ::
  "LocalStorage \<Rightarrow> filesystem \<Rightarrow> string \<Rightarrow> AppError option \<times> filesystem" where
  "Local_Upload_dir ls fs fullPath =
     (let dir = Dir fullPath in
      if createDirectories ls then
        (case os_MkdirAll fs dir of
           (Some e, fs1) \<Rightarrow>
             (Some (WrapError (OsError e) StatusInternalServerError
                      (''Failed to create directory: '' @ dir)), fs1)
         | (None, fs1) \<Rightarrow> (None, fs1))
      else
        (case os_Stat fs dir of
           Inl ENOENT \<Rightarrow>
             (Some (WrapError (OsError ENOENT) StatusBadRequest
                      (''Directory does not exist: '' @ dir)), fs)
         | _ \<Rightarrow> (None, fs)))"

definition Local_Upload ::
  "LocalStorage \<Rightarrow> filesystem \<Rightarrow> FileHeader \<Rightarrow> string \<Rightarrow> (AppError + FileInfo) \<times> filesystem"
  where
  "Local_Upload ls fs file path =
     (let fullPath = Join [basePath ls, path] in
      case Local_Upload_dir ls fs fullPath of
        (Some err, fs1) \<Rightarrow> (Inl err, fs1)
      | (None, fs1) \<Rightarrow>
          (case os_Stat fs1 fullPath of
             Inr _ \<Rightarrow>
               (Inl (NewCustomError StatusConflict ErrCodeFileAlreadyExists
                       (''File already exists: '' @ path)), fs1)
           | Inl _ \<Rightarrow>
               (case Open file of
                  None \<Rightarrow>
                    (Inl (WrapError MultipartError StatusInternalServerError
                            ''Failed to open uploaded file''), fs1)
                | Some src \<Rightarrow>
                    (case os_Create fs1 fullPath of
                       (Some e, fs2) \<Rightarrow>
                         (Inl (WrapError (OsError e) StatusInternalServerError
                                 (''Failed to create destination file: '' @ fullPath)), fs2)
                     | (None, fs2) \<Rightarrow>
                         (let fs3 = io_Copy fs2 fullPath (bytes src) in
                          if readError src then
                            (Inl (WrapError MultipartError StatusInternalServerError
                                    ''Failed to copy file contents''), fs3)
                          else
                            (case os_Stat fs3 fullPath of
                               Inl e \<Rightarrow>
                                 (Inl (WrapError (OsError e) StatusInternalServerError
                                         ''Failed to get file information''), fs3)
                             | Inr fileInfo \<Rightarrow>
                                 (Inr \<lparr>Name = Base path, Size = fiSize fileInfo,
                                        LastModified = fiModTime fileInfo,
                                        URL = localURL ls path,
                                        ContentType = getContentType (Ext fullPath),
                                        IsDirectory = False\<rparr>, fs3)))))))"

text \<open>\<^verbatim>\<open>Get\<close> returns the bytes the opened file yields, and its record.\<close>

definition Local_Get ::
  "LocalStorage \<Rightarrow> filesystem \<Rightarrow> string \<Rightarrow> AppError + (string \<times> FileInfo)" where
  "Local_Get ls fs path =
     (let fullPath = Join [basePath ls, path] in
      case os_Stat fs fullPath of
        Inl e \<Rightarrow>
          if e = ENOENT then Inl (FileNotFoundError path)
          else Inl (WrapError (OsError e) StatusInternalServerError
                      (''Failed to access file: '' @ path))
      | Inr fileInfo \<Rightarrow>
          if fiIsDir fileInfo then
            Inl (NewCustomError StatusBadRequest ErrCodeInvalidPath
                   (''Path is a directory, not a file: '' @ path))
          else
            (case os_Open fs fullPath of
               Inl e \<Rightarrow>
                 Inl (WrapError (OsError e) StatusInternalServerError
                        (''Failed to open file: '' @ path))
             | Inr data \<Rightarrow>
                 Inr (data,
                      \<lparr>Name = Base path, Size = fiSize fileInfo,
                       LastModified = fiModTime fileInfo, URL = localURL ls path,
                       ContentType = getContentType (Ext fullPath),
                       IsDirectory = False\<rparr>)))"

definition Local_Delete ::
  "LocalStorage \<Rightarrow> filesystem \<Rightarrow> string \<Rightarrow> AppError option \<times> filesystem" where
  "Local_Delete ls fs path =
     (let fullPath = Join [basePath ls, path] in
      case os_Stat fs fullPath of
        Inl e \<Rightarrow>
          if e = ENOENT then (Some (FileNotFoundError path), fs)
          else (Some (WrapError (OsError e) StatusInternalServerError
                        (''Failed to access file: '' @ path)), fs)
      | Inr fileInfo \<Rightarrow>
          if fiIsDir fileInfo then
            (Some (NewCustomError StatusBadRequest ErrCodeInvalidPath
                     (''Cannot delete a directory with this method: '' @ path)), fs)
          else
            (case os_Remove fs fullPath of
               (Some e, fs1) \<Rightarrow>
                 (Some (WrapError (OsError e) StatusInternalServerError
                          (''Failed to delete file: '' @ path)), fs1)
             | (None, fs1) \<Rightarrow> (None, fs1)))"

definition Local_Exists :: "LocalStorage \<Rightarrow> filesystem \<Rightarrow> string \<Rightarrow> bool \<times> AppError option"
  where
  "Local_Exists ls fs path =
     (let fullPath = Join [basePath ls, path] in
      case os_Stat fs fullPath of
        Inl e \<Rightarrow>
          if e = ENOENT then (False, None)
          else (False, Some (WrapError (OsError e) StatusInternalServerError
                               (''Failed to check file existence: '' @ path)))
      | Inr _ \<Rightarrow> (True, None))"

text \<open>
  \<^verbatim>\<open>List\<close>: the record of the file when the path is one; otherwise one record per
  directory entry whose \<^verbatim>\<open>Info\<close> succeeds (entries with errors are skipped).
\<close>

definition Local_List_entry :: "LocalStorage \<Rightarrow> string \<Rightarrow> DirEntry \<Rightarrow> FileInfo list" where
  "Local_List_entry ls path entry =
     (case deInfo entry of
        Inl _ \<Rightarrow> []
      | Inr entryInfo \<Rightarrow>
          [\<lparr>Name = deName entry, Size = fiSize entryInfo,
            LastModified = fiModTime entryInfo,
            URL = localURL ls (Join [path, deName entry]),
            ContentType =
              (if \<not> fiIsDir entryInfo then getContentType (Ext (deName entry)) else []),
            IsDirectory = fiIsDir entryInfo\<rparr>])"

definition Local_List :: "LocalStorage \<Rightarrow> filesystem \<Rightarrow> string \<Rightarrow> AppError + FileInfo list"
  where
  "Local_List ls fs path =
     (let fullPath = Join [basePath ls, path] in
      case os_Stat fs fullPath of
        Inl e \<Rightarrow>
          if e = ENOENT then Inl (FileNotFoundError path)
          else Inl (WrapError (OsError e) StatusInternalServerError
                      (''Failed to access directory: '' @ path))
      | Inr fileInfo \<Rightarrow>
          if \<not> fiIsDir fileInfo then
            Inr [\<lparr>Name = Base path, Size = fiSize fileInfo,
                  LastModified = fiModTime fileInfo, URL = localURL ls path,
                  ContentType = getContentType (Ext fullPath), IsDirectory = False\<rparr>]
          else
            (case os_ReadDir fs fullPath of
               Inl e \<Rightarrow>
                 Inl (WrapError (OsError e) StatusInternalServerError
                        (''Failed to read directory: '' @ path))
             | Inr dirEntries \<Rightarrow> Inr (concat (map (Local_List_entry ls path) dirEntries))))"

definition Local_GetInfo :: "LocalStorage \<Rightarrow> filesystem \<Rightarrow> string \<Rightarrow> AppError + FileInfo"
  where
  "Local_GetInfo ls fs path =
     (let fullPath = Join [basePath ls, path] in
      case os_Stat fs fullPath of
        Inl e \<Rightarrow>
          if e = ENOENT then Inl (FileNotFoundError path)
          else Inl (WrapError (OsError e) StatusInternalServerError
                      (''Failed to get file information: '' @ path))
      | Inr fileInfo \<Rightarrow>
          Inr \<lparr>Name = Base path, Size = fiSize fileInfo, LastModified = fiModTime fileInfo,
               URL = localURL ls path,
               ContentType =
                 (if \<not> fiIsDir fileInfo then getContentType (Ext fullPath) else []),
               IsDirectory = fiIsDir fileInfo\<rparr>)"

section \<open>The object store\<close>

text \<open>
  The S3 service as the client of the AWS SDK shows it, for the one bucket a storage is
  bound to: the objects by key; an outage (when set, every request fails with that
  error); a transient failure (when set, the request that comes next fails with that
  error and the requests after it go through: requests are independent, a refused
  \<^verbatim>\<open>HEAD\<close> says nothing about the \<^verbatim>\<open>PUT\<close> that follows); whether loading the default
  SDK configuration fails; the region that configuration falls back to; the endpoint
  that object locations are reported under; and the clock (its value, and its RFC 3339
  rendering).
\<close>

record s3_object =
  Body :: string
  ObjectContentType :: "string option"
  Metadata :: "(string \<times> string) list"
  ObjectLastModified :: nat

record s3_service =
  objects :: "(string \<times> s3_object) list"
  outage :: "sdk_error option"
  transient :: "sdk_error option"
  configError :: "sdk_error option"
  defaultRegion :: string
  endpoint :: string
  now :: nat
  nowRFC3339 :: string

text \<open>The error a request meets, if any, and the service once the request is over.\<close>

definition requestError :: "s3_service \<Rightarrow> sdk_error option" where
  "requestError svc = (case outage svc of Some e \<Rightarrow> Some e | None \<Rightarrow> transient svc)"

definition afterRequest :: "s3_service \<Rightarrow> s3_service" where
  "afterRequest svc = svc\<lparr>transient := None\<rparr>"

text \<open>
  The error of a request for a key that is not there: the SDK reports the 404 response of
  the service; a \<^verbatim>\<open>HEAD\<close> response has no body, so its error code is \<open>NotFound\<close>.
  A request with an empty key is refused by the client before it is sent.
\<close>

definition headNotFound :: sdk_error where
  "headNotFound =
     \<lparr>sdkStatus = 404,
      sdkText = ''operation error S3: HeadObject, https response error StatusCode: 404, api error NotFound: Not Found''\<rparr>"

definition getNoSuchKey :: sdk_error where
  "getNoSuchKey =
     \<lparr>sdkStatus = 404,
      sdkText = ''operation error S3: GetObject, https response error StatusCode: 404, api error NoSuchKey: The specified key does not exist.''\<rparr>"

definition emptyKey :: "string \<Rightarrow> sdk_error" where
  "emptyKey operation =
     \<lparr>sdkStatus = 0,
      sdkText = ''operation error S3: '' @ operation
                @ '', serialization failed: input member Key must not be empty''\<rparr>"

record HeadObjectOutput =
  ContentLength :: "int option"
  HeadContentType :: "string option"
  HeadLastModified :: "nat option"

record GetObjectOutput =
  GetBody :: string
  GetContentType :: "string option"

record ObjectSummary =
  Key :: string
  ObjectSize :: int
  SummaryLastModified :: nat

record ListObjectsV2Output =
  CommonPrefixes :: "string list"
  Contents :: "ObjectSummary list"

definition s3_HeadBucket :: "s3_service \<Rightarrow> sdk_error option" where
  "s3_HeadBucket svc = requestError svc"

definition s3_HeadObject :: "s3_service \<Rightarrow> string \<Rightarrow> sdk_error + HeadObjectOutput" where
  "s3_HeadObject svc key =
     (if key = [] then Inl (emptyKey ''HeadObject'')
      else
        (case requestError svc of
           Some e \<Rightarrow> Inl e
         | None \<Rightarrow>
             (case map_of (objects svc) key of
                None \<Rightarrow> Inl headNotFound
              | Some obj \<Rightarrow>
                  Inr \<lparr>ContentLength = Some (int (length (Body obj))),
                       HeadContentType = ObjectContentType obj,
                       HeadLastModified = Some (ObjectLastModified obj)\<rparr>)))"

text \<open>The service after a request for a key: nothing was sent for the empty key.\<close>

definition afterKeyRequest :: "s3_service \<Rightarrow> string \<Rightarrow> s3_service" where
  "afterKeyRequest svc key = (if key = [] then svc else afterRequest svc)"

definition s3_GetObject :: "s3_service \<Rightarrow> string \<Rightarrow> sdk_error + GetObjectOutput" where
  "s3_GetObject svc key =
     (if key = [] then Inl (emptyKey ''GetObject'')
      else
        (case requestError svc of
           Some e \<Rightarrow> Inl e
         | None \<Rightarrow>
             (case map_of (objects svc) key of
                None \<Rightarrow> Inl getNoSuchKey
              | Some obj \<Rightarrow>
                  Inr \<lparr>GetBody = Body obj, GetContentType = ObjectContentType obj\<rparr>)))"

text \<open>The uploader stores the object under the key and reports its location.\<close>

definition s3_Upload ::
  "s3_service \<Rightarrow> string \<Rightarrow> string \<Rightarrow> string \<Rightarrow> (string \<times> string) list
     \<Rightarrow> (sdk_error + string) \<times> s3_service" where
  "s3_Upload svc key body contentType metadata =
     (if key = [] then (Inl (emptyKey ''PutObject''), svc)
      else
        (case requestError svc of
           Some e \<Rightarrow> (Inl e, afterRequest svc)
         | None \<Rightarrow>
             (Inr (endpoint svc @ ''/'' @ key),
              afterRequest
                (svc\<lparr>objects :=
                       AList.update key
                         \<lparr>Body = body, ObjectContentType = Some contentType,
                          Metadata = metadata, ObjectLastModified = now svc\<rparr>
                         (objects svc)\<rparr>))))"

text \<open>Deleting a key succeeds whether or not an object is stored under it.\<close>

definition s3_DeleteObject :: "s3_service \<Rightarrow> string \<Rightarrow> sdk_error option \<times> s3_service" where
  "s3_DeleteObject svc key =
     (if key = [] then (Some (emptyKey ''DeleteObject''), svc)
      else
        (case requestError svc of
           Some e \<Rightarrow> (Some e, afterRequest svc)
         | None \<Rightarrow>
             (None, afterRequest (svc\<lparr>objects := AList.delete key (objects svc)\<rparr>))))"

text \<open>
  \<^verbatim>\<open>ListObjectsV2\<close> with a prefix and the delimiter \<open>/\<close>: of the keys that start with
  the prefix, in key order, those with a delimiter after the prefix are folded into the
  common prefix that ends at that delimiter, the others are listed as contents. The
  service answers with one page of at most 1000 such entries, a common prefix counting
  as one, and the source reads no further page.
\<close>

definition afterPrefix :: "string \<Rightarrow> string \<Rightarrow> string" where
  "afterPrefix prefix key = drop (length prefix) key"

definition commonPrefixOf :: "string \<Rightarrow> string \<Rightarrow> string" where
  "commonPrefixOf prefix key =
     prefix @ takeWhile (\<lambda>c. c \<noteq> CHR ''/'') (afterPrefix prefix key) @ ''/''"

definition summaryOf :: "s3_service \<Rightarrow> string \<Rightarrow> ObjectSummary list" where
  "summaryOf svc key =
     (case map_of (objects svc) key of
        None \<Rightarrow> []
      | Some obj \<Rightarrow>
          [\<lparr>Key = key, ObjectSize = int (length (Body obj)),
            SummaryLastModified = ObjectLastModified obj\<rparr>])"

datatype list_entry = CommonPrefix string | Content string

definition listEntry :: "string \<Rightarrow> string \<Rightarrow> list_entry" where
  "listEntry prefix key =
     (if CHR ''/'' \<in> set (afterPrefix prefix key) then CommonPrefix (commonPrefixOf prefix key)
      else Content key)"

definition s3_ListObjectsV2 :: "s3_service \<Rightarrow> string \<Rightarrow> sdk_error + ListObjectsV2Output"
  where
  "s3_ListObjectsV2 svc prefix =
     (case requestError svc of
        Some e \<Rightarrow> Inl e
      | None \<Rightarrow>
          (let keys = sort (remdups (filter (\<lambda>k. HasPrefix k prefix) (map fst (objects svc))));
               page = take 1000 (remdups (map (listEntry prefix) keys))
           in Inr \<lparr>CommonPrefixes =
                     concat (map (\<lambda>e. case e of CommonPrefix p \<Rightarrow> [p] | Content _ \<Rightarrow> []) page),
                   Contents =
                     concat (map (\<lambda>e. case e of CommonPrefix _ \<Rightarrow> [] | Content k \<Rightarrow> summaryOf svc k)
                               page)\<rparr>))"

text \<open>\<^verbatim>\<open>config.LoadDefaultConfig\<close> with a region: an error, or the region in force.\<close>

definition LoadDefaultConfig :: "s3_service \<Rightarrow> string \<Rightarrow> sdk_error + string" where
  "LoadDefaultConfig svc region =
     (case configError svc of
        Some e \<Rightarrow> Inl e
      | None \<Rightarrow> Inr (if region = [] then defaultRegion svc else region))"

section \<open>The S3 backend (s3_storage.go)\<close>

text \<open>
  The client, uploader and downloader of \<^verbatim>\<open>S3Storage\<close> are the connection to the
  service; the fields that are data are kept. \<^verbatim>\<open>S3Config.AWSConfig\<close> is kept by its
  region, the only part the constructor reads. (Field names that two Go structs share
  carry a prefix here.)
\<close>

record S3Storage =
  bucket :: string
  basePrefix :: string
  s3BaseURL :: string
  region :: string

record S3Config =
  AWSConfigRegion :: string
  Bucket :: string
  BasePrefix :: string
  CfgBaseURL :: string
  Region :: string
  Endpoint :: string
  AccessKey :: string
  SecretKey :: string
  UseSSL :: bool
  UsePathStyle :: bool

definition NewS3Storage ::
  "S3Config \<Rightarrow> s3_service \<Rightarrow> (AppError + S3Storage) \<times> s3_service" where
  "NewS3Storage cfg svc =
     (case (if Endpoint cfg \<noteq> [] then None
            else if AWSConfigRegion cfg \<noteq> [] then None
            else (case LoadDefaultConfig svc (Region cfg) of
                    Inl e \<Rightarrow> Some e
                  | Inr _ \<Rightarrow> None)) of
        Some e \<Rightarrow>
          (Inl (WrapError (SdkError e) StatusInternalServerError
                  ''Failed to load AWS configuration''), svc)
      | None \<Rightarrow>
          (case s3_HeadBucket svc of
             Some e \<Rightarrow>
               (Inl (WrapError (SdkError e) StatusInternalServerError
                       (''Failed to access S3 bucket ''
                          @ [CHR 0x27] @ Bucket cfg @ [CHR 0x27])), afterRequest svc)
           | None \<Rightarrow>
               (Inr \<lparr>bucket = Bucket cfg, basePrefix = BasePrefix cfg,
                      s3BaseURL = CfgBaseURL cfg, region = Region cfg\<rparr>,
                afterRequest svc)))"

definition getFullKey :: "S3Storage \<Rightarrow> string \<Rightarrow> string" where
  "getFullKey s path = (if basePrefix s = [] then path else Join [basePrefix s, path])"

definition getURL :: "S3Storage \<Rightarrow> string \<Rightarrow> string" where
  "getURL s key =
     (if s3BaseURL s \<noteq> [] then TrimRight (s3BaseURL s) ''/'' @ ''/'' @ TrimLeft key ''/''
      else if region s = [] then ''https://'' @ bucket s @ ''.s3.amazonaws.com/'' @ key
      else ''https://'' @ bucket s @ ''.s3.'' @ region s @ ''.amazonaws.com/'' @ key)"

text \<open>
  The test every operation applies to an error of \<^verbatim>\<open>HeadObject\<close>: its text contains
  \<open>NotFound\<close> or \<open>404\<close>.
\<close>

definition looksNotFound :: "sdk_error \<Rightarrow> bool" where
  "looksNotFound e = (Contains (sdkText e) ''NotFound'' \<or> Contains (sdkText e) ''404'')"

definition S3_Exists :: "S3Storage \<Rightarrow> s3_service \<Rightarrow> string \<Rightarrow> bool \<times> AppError option" where
  "S3_Exists s svc path =
     (let fullKey = getFullKey s path in
      case s3_HeadObject svc fullKey of
        Inl e \<Rightarrow>
          if looksNotFound e then (False, None)
          else (False, Some (WrapError (SdkError e) StatusInternalServerError
                               (''Failed to check if file exists in S3: '' @ path)))
      | Inr _ \<Rightarrow> (True, None))"

text \<open>
  \<^verbatim>\<open>Upload\<close>; \<open>detect\<close> is \<^verbatim>\<open>http.DetectContentType\<close>, taken as a parameter.
  \<^verbatim>\<open>Exists\<close> sends one request, so the requests after it meet the service as that
  request left it; the same holds inside \<^verbatim>\<open>Get\<close>, \<^verbatim>\<open>Delete\<close> and \<^verbatim>\<open>List\<close>.
\<close>

definition S3_Upload ::
  "S3Storage \<Rightarrow> s3_service \<Rightarrow> (string \<Rightarrow> string) \<Rightarrow> FileHeader \<Rightarrow> string
     \<Rightarrow> (AppError + FileInfo) \<times> s3_service" where
  "S3_Upload s svc detect file path =
     (case Open file of
        None \<Rightarrow>
          (Inl (WrapError MultipartError StatusInternalServerError
                  ''Failed to open uploaded file''), svc)
      | Some src \<Rightarrow>
          if readError src then
            (Inl (WrapError MultipartError StatusInternalServerError ''Failed to read file''),
             svc)
          else
            (let buffer = bytes src;
                 size = int (length buffer);
                 sniffed = detect buffer;
                 contentType =
                   (if HasPrefix sniffed ''application/octet-stream''
                    then getContentTypeByExt (Ext (Filename file)) else sniffed)
             in
             if seekError src then
               (Inl (WrapError MultipartError StatusInternalServerError
                       ''Failed to reset file pointer''), svc)
             else
               (let fullKey = getFullKey s path in
                case S3_Exists s svc path of
                  (_, Some err) \<Rightarrow>
                    (Inl (WrapError (App err) StatusInternalServerError
                            ''Failed to check if file exists''), afterKeyRequest svc fullKey)
                | (exists, None) \<Rightarrow>
                    if exists then
                      (Inl (NewCustomError StatusConflict ErrCodeFileAlreadyExists
                              (''File already exists: '' @ path)),
                       afterKeyRequest svc fullKey)
                    else
                      (case s3_Upload (afterKeyRequest svc fullKey) fullKey buffer contentType
                              [(''OriginalFilename'', Filename file),
                               (''UploadedAt'', nowRFC3339 svc)] of
                         (Inl e, svc1) \<Rightarrow>
                           (Inl (WrapError (SdkError e) StatusInternalServerError
                                   (''Failed to upload file to S3: '' @ sdkText e)), svc1)
                       | (Inr location, svc1) \<Rightarrow>
                           (Inr \<lparr>Name = Base path, Size = size, LastModified = now svc,
                                  URL = (if s3BaseURL s \<noteq> [] then getURL s fullKey
                                         else location),
                                  ContentType = contentType, IsDirectory = False\<rparr>,
                            svc1)))))"

definition getInt64Value :: "int option \<Rightarrow> int" where
  "getInt64Value val = (case val of None \<Rightarrow> 0 | Some v \<Rightarrow> v)"

definition getTimeValue :: "nat option \<Rightarrow> nat" where
  "getTimeValue val = (case val of None \<Rightarrow> 0 | Some v \<Rightarrow> v)"

definition S3_Get :: "S3Storage \<Rightarrow> s3_service \<Rightarrow> string \<Rightarrow> AppError + (string \<times> FileInfo)"
  where
  "S3_Get s svc path =
     (let fullKey = getFullKey s path in
      case s3_HeadObject svc fullKey of
        Inl e \<Rightarrow>
          if looksNotFound e then Inl (FileNotFoundError path)
          else Inl (WrapError (SdkError e) StatusInternalServerError
                      (''Failed to get file metadata from S3: '' @ path))
      | Inr headOutput \<Rightarrow>
          (case s3_GetObject (afterKeyRequest svc fullKey) fullKey of
             Inl e \<Rightarrow>
               Inl (WrapError (SdkError e) StatusInternalServerError
                      (''Failed to get file from S3: '' @ path))
           | Inr result \<Rightarrow>
               Inr (GetBody result,
                    \<lparr>Name = Base path, Size = getInt64Value (ContentLength headOutput),
                     LastModified = getTimeValue (HeadLastModified headOutput),
                     URL = getURL s fullKey,
                     ContentType =
                       (case GetContentType result of
                          None \<Rightarrow> ''application/octet-stream''
                        | Some t \<Rightarrow> t),
                     IsDirectory = False\<rparr>)))"

definition S3_Delete :: "S3Storage \<Rightarrow> s3_service \<Rightarrow> string \<Rightarrow> AppError option \<times> s3_service"
  where
  "S3_Delete s svc path =
     (let fullKey = getFullKey s path in
      case S3_Exists s svc path of
        (_, Some err) \<Rightarrow>
          (Some (WrapError (App err) StatusInternalServerError
                   (''Failed to check if file exists: '' @ path)),
           afterKeyRequest svc fullKey)
      | (exists, None) \<Rightarrow>
          if \<not> exists then (Some (FileNotFoundError path), afterKeyRequest svc fullKey)
          else
            (case s3_DeleteObject (afterKeyRequest svc fullKey) fullKey of
               (Some e, svc1) \<Rightarrow>
                 (Some (WrapError (SdkError e) StatusInternalServerError
                          (''Failed to delete file from S3: '' @ path)), svc1)
             | (None, svc1) \<Rightarrow> (None, svc1)))"

definition S3_GetInfo :: "S3Storage \<Rightarrow> s3_service \<Rightarrow> string \<Rightarrow> AppError + FileInfo" where
  "S3_GetInfo s svc path =
     (let fullKey = getFullKey s path in
      case s3_HeadObject svc fullKey of
        Inl e \<Rightarrow>
          if looksNotFound e then Inl (FileNotFoundError path)
          else Inl (WrapError (SdkError e) StatusInternalServerError
                      (''Failed to get file metadata from S3: '' @ path))
      | Inr headOutput \<Rightarrow>
          Inr \<lparr>Name = Base path, Size = getInt64Value (ContentLength headOutput),
               LastModified = getTimeValue (HeadLastModified headOutput),
               URL = getURL s fullKey,
               ContentType =
                 (case HeadContentType headOutput of
                    Some t \<Rightarrow> t
                  | None \<Rightarrow> getContentTypeByExt (Ext path)),
               IsDirectory = False\<rparr>)"

text \<open>\<^verbatim>\<open>List\<close>: the prefix to list, the records of the two loops, the special case.\<close>

definition withSlash :: "string \<Rightarrow> string" where
  "withSlash p = (if p \<noteq> [] \<and> \<not> HasSuffix p ''/'' then p @ ''/'' else p)"

definition listPrefix :: "S3Storage \<Rightarrow> string \<Rightarrow> string" where
  "listPrefix s path =
     (if path = [] \<or> path = ''/'' then withSlash (basePrefix s)
      else withSlash (getFullKey s path))"

definition directoryRecord :: "S3Storage \<Rightarrow> s3_service \<Rightarrow> string \<Rightarrow> FileInfo" where
  "directoryRecord s svc prefix =
     \<lparr>Name = Base (TrimSuffix prefix ''/''), Size = 0, LastModified = now svc,
      URL = getURL s prefix, ContentType = ''application/directory'', IsDirectory = True\<rparr>"

definition objectRecord :: "S3Storage \<Rightarrow> ObjectSummary \<Rightarrow> FileInfo" where
  "objectRecord s obj =
     \<lparr>Name = Base (Key obj), Size = ObjectSize obj, LastModified = SummaryLastModified obj,
      URL = getURL s (Key obj), ContentType = getContentTypeByExt (Ext (Base (Key obj))),
      IsDirectory = False\<rparr>"

definition S3_List :: "S3Storage \<Rightarrow> s3_service \<Rightarrow> string \<Rightarrow> AppError + FileInfo list" where
  "S3_List s svc path =
     (let fullPrefix = listPrefix s path in
      case s3_ListObjectsV2 svc fullPrefix of
        Inl e \<Rightarrow>
          Inl (WrapError (SdkError e) StatusInternalServerError
                 (''Failed to list files in S3: '' @ path))
      | Inr output \<Rightarrow>
          (let files =
                 map (directoryRecord s svc) (CommonPrefixes output)
                 @ map (objectRecord s)
                     (filter (\<lambda>obj. \<not> HasSuffix (Key obj) ''/'' \<and> Key obj \<noteq> fullPrefix)
                        (Contents output))
           in if files = [] \<and> \<not> HasSuffix fullPrefix ''/'' then
                (case S3_GetInfo s (afterRequest svc) path of
                   Inr fileInfo \<Rightarrow> Inr [fileInfo]
                 | Inl _ \<Rightarrow> Inr files)
              else Inr files))"

section \<open>The factory (factory.go)\<close>

datatype Storage = LocalBackend LocalStorage | S3Backend S3Storage

record Provider =
  storage :: Storage

definition NewProvider :: "Storage \<Rightarrow> Provider" where
  "NewProvider st = \<lparr>storage = st\<rparr>"

record world =
  disk :: filesystem
  s3 :: s3_service

definition NewStorageProvider :: "world \<Rightarrow> Config \<Rightarrow> (AppError + Provider) \<times> world" where
  "NewStorageProvider w cfg =
     (if Validate cfg \<noteq> [] then
        (Inl (NewErrorWithDetails StatusBadRequest ''Invalid filesystem configuration''
                (Validate cfg)), w)
      else if StorageType cfg = ''s3'' then
        (case (if S3Endpoint cfg \<noteq> [] then
                 Inr \<lparr>AWSConfigRegion = [], Bucket = S3Bucket cfg,
                      BasePrefix = S3BasePrefix cfg, CfgBaseURL = S3BaseURL cfg,
                      Region = S3Region cfg, Endpoint = S3Endpoint cfg,
                      AccessKey = S3AccessKey cfg, SecretKey = S3SecretKey cfg,
                      UseSSL = S3UseSSL cfg, UsePathStyle = S3PathStyle cfg\<rparr>
               else
                 (case LoadDefaultConfig (s3 w) (S3Region cfg) of
                    Inl e \<Rightarrow>
                      Inl (WrapError (SdkError e) StatusInternalServerError
                             ''Unable to load AWS SDK config'')
                  | Inr awsRegion \<Rightarrow>
                      Inr \<lparr>AWSConfigRegion = awsRegion, Bucket = S3Bucket cfg,
                           BasePrefix = S3BasePrefix cfg, CfgBaseURL = S3BaseURL cfg,
                           Region = S3Region cfg, Endpoint = [], AccessKey = [],
                           SecretKey = [], UseSSL = False, UsePathStyle = False\<rparr>)) of
           Inl err \<Rightarrow> (Inl err, w)
         | Inr s3Config \<Rightarrow>
             (case NewS3Storage s3Config (s3 w) of
                (Inl err, svc1) \<Rightarrow> (Inl err, w\<lparr>s3 := svc1\<rparr>)
              | (Inr s3Storage, svc1) \<Rightarrow>
                  (Inr (NewProvider (S3Backend s3Storage)), w\<lparr>s3 := svc1\<rparr>)))
      else if StorageType cfg = ''local'' \<or> StorageType cfg = [] then
        (case NewLocalStorage
                \<lparr>BasePath = LocalStoragePath cfg, BaseURL = LocalBaseURL cfg,
                 CreateDirectories = CreateLocalDirs cfg\<rparr> (disk w) of
           (Inl err, fs1) \<Rightarrow>
             (Inl (WrapError (App err) StatusInternalServerError
                     ''Failed to initialize local storage''), w\<lparr>disk := fs1\<rparr>)
         | (Inr localStorage, fs1) \<Rightarrow>
             (Inr (NewProvider (LocalBackend localStorage)), w\<lparr>disk := fs1\<rparr>))
      else
        (Inl (NewError StatusBadRequest (''Unsupported storage type: '' @ StorageType cfg)),
         w))"

section \<open>Example states\<close>

text \<open>
  A local backend rooted at \<open>/tmp/x\<close> on a disk that holds the file \<open>a/old.txt\<close>
  under that root, an S3 backend on a bucket that holds the objects \<open>a/old.txt\<close> and
  \<open>c.txt\<close>, an upload of the five bytes \<open>hello\<close>, a content sniffer that recognizes
  nothing, a world whose disk holds the working directory only, and the error of a
  \<^verbatim>\<open>HEAD\<close> request that the service refused with status
  403 under a request id that happens to contain the digits 404.
\<close>

definition exampleDisk :: filesystem where
  "exampleDisk =
     \<lparr>entries = [(''/tmp'', Directory 0), (''/tmp/x'', Directory 0), (''/tmp/x/a'', Directory 0),
                 (''/tmp/x/a/old.txt'', File ''old'' 0)],
      faults = [], dirSize = 4096, clock = 7\<rparr>"

definition exampleLocal :: LocalStorage where
  "exampleLocal = \<lparr>basePath = ''/tmp/x'', baseURL = [], createDirectories = True\<rparr>"

definition exampleUpload :: FileHeader where
  "exampleUpload =
     \<lparr>Filename = ''b.txt'', HeaderSize = 5,
      Open = Some \<lparr>bytes = ''hello'', readError = False, seekError = False\<rparr>\<rparr>"

definition exampleObject :: s3_object where
  "exampleObject =
     \<lparr>Body = ''old'', ObjectContentType = Some ''text/plain'', Metadata = [],
      ObjectLastModified = 3\<rparr>"

definition exampleService :: s3_service where
  "exampleService =
     \<lparr>objects = [(''a/old.txt'', exampleObject), (''c.txt'', exampleObject)],
      outage = None, transient = None, configError = None, defaultRegion = ''us-east-1'',
      endpoint = ''https://b.s3.amazonaws.com'', now = 9,
      nowRFC3339 = ''2024-01-01T00:00:00Z''\<rparr>"

definition exampleS3 :: S3Storage where
  "exampleS3 = \<lparr>bucket = ''b'', basePrefix = [], s3BaseURL = [], region = []\<rparr>"

definition noSniff :: "string \<Rightarrow> string" where
  "noSniff data = ''application/octet-stream''"

definition exampleWorld :: world where
  "exampleWorld =
     \<lparr>disk = \<lparr>entries = [(''.'', Directory 0)], faults = [], dirSize = 4096, clock = 1\<rparr>,
      s3 = exampleService\<rparr>"

definition forbidden :: sdk_error where
  "forbidden =
     \<lparr>sdkStatus = 403,
      sdkText = ''operation error S3: HeadObject, https response error StatusCode: 403, RequestID: 4R404XKZQ2M1T9BV, api error Forbidden: Forbidden''\<rparr>"

section \<open>Verification\<close>

subsection \<open>Evaluation rules\<close>

lemmas example_defs = exampleDisk_def exampleLocal_def exampleUpload_def exampleObject_def
  exampleService_def exampleS3_def noSniff_def forbidden_def

lemmas path_defs = Let_def Join_def Clean_def Dir_def Base_def Ext_def HasPrefix_def HasSuffix_def
  TrimPrefix_def TrimSuffix_def TrimLeft_def TrimRight_def

lemmas error_defs = FileNotFoundError_def NewCustomError_def WrapError_def NewError_def
  NewErrorWithDetails_def errorCodeOf_def statusToErrorCode_def

subsection \<open>The file system and the local backend\<close>

lemma dirPrefixes_shorter:
  "a \<in> set (dirPrefixes pre cs) \<Longrightarrow> length a < length pre + length cs"
  by (induction cs arbitrary: pre) (fastforce split: if_splits)+

lemma ancestors_differ: "a \<in> set (ancestors p) \<Longrightarrow> a \<noteq> p"
  using dirPrefixes_shorter [of a "[]" p] by (auto simp: ancestors_def)

lemma walk_same:
  "(\<And>a. a \<in> set as \<Longrightarrow> map_of es' a = map_of es a) \<Longrightarrow> walk es' as = walk es as"
  by (induction as) (auto split: option.splits node.splits)

lemma walk_update: "walk (AList.update p v es) (ancestors p) = walk es (ancestors p)"
  by (rule walk_same) (simp add: update_conv' ancestors_differ)

lemma walk_delete: "walk (AList.delete p es) (ancestors p) = walk es (ancestors p)"
  by (rule walk_same) (simp add: delete_conv' ancestors_differ)


lemma os_Stat_after_Copy:
  assumes "os_Stat (io_Copy fs p data) p = Inr fi"
  shows "\<not> fiIsDir fi \<and> fiSize fi = int (length data) \<and> os_Open (io_Copy fs p data) p = Inr data"
  using assms
  by (auto simp: os_Stat_def os_Open_def lookupNode_def io_Copy_def Let_def update_conv'
      statNode_def split: option.splits sum.splits)

lemma os_Remove_gone:
  assumes "os_Remove fs p = (None, fs')"
  shows "os_Stat fs' p = Inl ENOENT"
  using assms
  by (auto simp: os_Remove_def os_Stat_def lookupNode_def Let_def delete_conv' walk_delete
      split: option.splits node.splits if_splits sum.splits)












lemma Local_Get_missing:
  "os_Stat fs (Join [basePath ls, path]) = Inl ENOENT \<Longrightarrow>
   Local_Get ls fs path = Inl (FileNotFoundError path)"
  by (simp add: Local_Get_def)

lemma Local_Exists_missing:
  "os_Stat fs (Join [basePath ls, path]) = Inl ENOENT \<Longrightarrow>
   Local_Exists ls fs path = (False, None)"
  by (simp add: Local_Exists_def)

lemma Local_Delete_success:
  assumes "Local_Delete ls fs path = (None, fs')"
  shows "os_Remove fs (Join [basePath ls, path]) = (None, fs')"
  using assms
  by (auto simp: Local_Delete_def Let_def split: sum.splits if_splits prod.splits option.splits)


lemma Local_Upload_success:
  assumes "Local_Upload ls fs hdr path = (Inr info, fs')"
  shows "\<exists>src fs2 fi. Open hdr = Some src \<and> \<not> readError src
           \<and> fs' = io_Copy fs2 (Join [basePath ls, path]) (bytes src)
           \<and> os_Stat fs' (Join [basePath ls, path]) = Inr fi
           \<and> Size info = fiSize fi"
  using assms
  by (auto simp: Local_Upload_def Let_def
      split: sum.splits if_splits prod.splits option.splits)



lemma Local_Exists_cases:
  "Local_Exists ls fs path =
     (case os_Stat fs (Join [basePath ls, path]) of
        Inr _ \<Rightarrow> (True, None)
      | Inl e \<Rightarrow> if e = ENOENT then (False, None)
                 else (False, Some (WrapError (OsError e) StatusInternalServerError
                               (''Failed to check file existence: '' @ path))))"
  by (simp add: Local_Exists_def split: sum.splits)

subsection \<open>The object store and the S3 backend\<close>

lemma looksNotFound_headNotFound: "looksNotFound headNotFound"
  by (simp add: looksNotFound_def headNotFound_def HasPrefix_def)

lemma not_looksNotFound_emptyKey: "\<not> looksNotFound (emptyKey ''HeadObject'')"
  by (simp add: looksNotFound_def emptyKey_def HasPrefix_def)

lemma afterRequest_idle: "transient svc = None \<Longrightarrow> afterRequest svc = svc"
  by (cases svc) (simp add: afterRequest_def)

lemma requestError_afterRequest: "requestError (afterRequest svc) = outage svc"
  by (simp add: requestError_def afterRequest_def split: option.splits)

lemma requestError_None: "requestError svc = None \<longleftrightarrow> outage svc = None \<and> transient svc = None"
  by (simp add: requestError_def split: option.splits)


lemma s3_HeadObject_missing:
  "key \<noteq> [] \<Longrightarrow> requestError svc = None \<Longrightarrow> map_of (objects svc) key = None \<Longrightarrow>
   s3_HeadObject svc key = Inl headNotFound"
  by (simp add: s3_HeadObject_def)

lemma S3_Exists_missing:
  "getFullKey s path \<noteq> [] \<Longrightarrow> requestError svc = None \<Longrightarrow>
   map_of (objects svc) (getFullKey s path) = None \<Longrightarrow>
   S3_Exists s svc path = (False, None)"
  by (simp add: S3_Exists_def s3_HeadObject_missing looksNotFound_headNotFound)

lemma S3_Exists_propagates:
  "s3_HeadObject svc (getFullKey s path) = Inl e \<Longrightarrow> \<not> looksNotFound e \<Longrightarrow>
   S3_Exists s svc path
     = (False, Some (WrapError (SdkError e) StatusInternalServerError
                       (''Failed to check if file exists in S3: '' @ path)))"
  by (simp add: S3_Exists_def)


lemma S3_Exists_absent:
  assumes "S3_Exists s svc path = (False, None)"
  shows "getFullKey s path \<noteq> []"
  using assms
  by (auto simp: S3_Exists_def s3_HeadObject_def Let_def not_looksNotFound_emptyKey
      split: sum.splits if_splits)

lemma S3_Upload_success:
  assumes "S3_Upload s svc detect upload path = (Inr info, svc')"
  shows "\<exists>src obj. Open upload = Some src \<and> \<not> readError src
           \<and> getFullKey s path \<noteq> [] \<and> requestError svc' = None
           \<and> map_of (objects svc') (getFullKey s path) = Some obj
           \<and> Body obj = bytes src"
proof -
  from assms obtain src where o: "Open upload = Some src" and r: "\<not> readError src"
    and ex: "S3_Exists s svc path = (False, None)"
    by (auto simp: S3_Upload_def Let_def
        split: sum.splits if_splits prod.splits option.splits)
  from ex have k: "getFullKey s path \<noteq> []" by (rule S3_Exists_absent)
  from assms o r ex k obtain ct md loc where
    up: "s3_Upload (afterRequest svc) (getFullKey s path) (bytes src) ct md = (Inr loc, svc')"
    by (auto simp: S3_Upload_def Let_def afterKeyRequest_def
        split: sum.splits if_splits prod.splits option.splits)
  from up k have "requestError svc' = None
      \<and> map_of (objects svc') (getFullKey s path)
          = Some \<lparr>Body = bytes src, ObjectContentType = Some ct, Metadata = md,
                   ObjectLastModified = now (afterRequest svc)\<rparr>"
    by (auto simp: s3_Upload_def requestError_def afterRequest_def update_conv'
        split: option.splits)
  with o r k show ?thesis by auto
qed

lemma S3_Get_stored:
  assumes "getFullKey s path \<noteq> []" "requestError svc = None"
    "map_of (objects svc) (getFullKey s path) = Some obj"
  shows "\<exists>info. S3_Get s svc path = Inr (Body obj, info) \<and> Size info = int (length (Body obj))"
proof -
  from assms(2) have "transient svc = None" by (simp add: requestError_None)
  then have "afterKeyRequest svc (getFullKey s path) = svc"
    by (simp add: afterKeyRequest_def afterRequest_idle)
  with assms show ?thesis
    by (simp add: S3_Get_def s3_HeadObject_def s3_GetObject_def getInt64Value_def)
qed

lemma S3_Delete_success:
  assumes "S3_Delete s svc path = (None, svc')"
  shows "getFullKey s path \<noteq> [] \<and> requestError svc' = None
         \<and> map_of (objects svc') (getFullKey s path) = None"
  using assms
  by (auto simp: S3_Delete_def S3_Exists_def s3_HeadObject_def s3_DeleteObject_def Let_def
        delete_conv' afterKeyRequest_def requestError_def afterRequest_def
      split: sum.splits if_splits prod.splits option.splits)


lemma S3_Get_missing:
  "getFullKey s path \<noteq> [] \<Longrightarrow> requestError svc = None \<Longrightarrow>
   map_of (objects svc) (getFullKey s path) = None \<Longrightarrow>
   S3_Get s svc path = Inl (FileNotFoundError path)"
  by (simp add: S3_Get_def s3_HeadObject_missing looksNotFound_headNotFound)




lemma listPrefix_slash:
  "path \<noteq> [] \<Longrightarrow> path \<noteq> ''/'' \<Longrightarrow> getFullKey s path \<noteq> [] \<Longrightarrow>
   HasSuffix (listPrefix s path) ''/''"
  by (auto simp: listPrefix_def withSlash_def HasSuffix_def)

subsection \<open>Content types\<close>

lemma switches_agree: "localSwitch ext = s3Switch ext"
  by (simp add: localSwitch_def s3Switch_def)

lemma localSwitch_default: "e \<notin> set knownExtensions \<Longrightarrow> localSwitch e = ''application/octet-stream''"
  unfolding knownExtensions_def localSwitch_def by simp

text \<open>
  Claim C6. The extension table of the local backend and that of the S3 backend give the
  same answer for every extension string, and so do the two switches on every
  lower-cased string, whatever the lower-casing; both map \<open>.pdf\<close> to
  \<open>application/pdf\<close> and \<open>.json\<close> to \<open>application/json\<close>; an extension whose
  lower-case form is not a case label of the table maps to
  \<open>application/octet-stream\<close>. (Lower-casing reaches the labels from outside ASCII
  too: \<open>.G\<close>, U+0130, \<open>F\<close> is \<open>.gif\<close>.)
\<close>

theorem content_type_tables_agree:
  "getContentType ext = getContentTypeByExt ext
   \<and> localSwitch ext = s3Switch ext
   \<and> getContentType ''.pdf'' = ''application/pdf''
   \<and> getContentTypeByExt ''.pdf'' = ''application/pdf''
   \<and> getContentType ''.json'' = ''application/json''
   \<and> getContentTypeByExt ''.json'' = ''application/json''
   \<and> (ToLower ext \<notin> set knownExtensions \<longrightarrow>
        getContentType ext = ''application/octet-stream''
        \<and> getContentTypeByExt ext = ''application/octet-stream'')
   \<and> (ext \<notin> set knownExtensions \<longrightarrow>
        localSwitch ext = ''application/octet-stream''
        \<and> s3Switch ext = ''application/octet-stream'')"
proof -
  have agree: "\<And>e. getContentType e = getContentTypeByExt e"
    by (simp add: getContentType_def getContentTypeByExt_def switches_agree)
  have pdf: "getContentType ''.pdf'' = ''application/pdf''"
    by (simp add: getContentType_def localSwitch_def lowerByte_def)
  have json: "getContentType ''.json'' = ''application/json''"
    by (simp add: getContentType_def localSwitch_def lowerByte_def)
  have dflt: "ToLower ext \<notin> set knownExtensions \<Longrightarrow> getContentType ext = ''application/octet-stream''"
    by (simp add: getContentType_def localSwitch_default)
  have sw: "ext \<notin> set knownExtensions \<Longrightarrow> localSwitch ext = ''application/octet-stream''"
    by (rule localSwitch_default)
  show ?thesis using agree pdf json dflt sw switches_agree by metis
qed

theorem content_type_tables_agree_witness:
  "getContentType [CHR ''.'', CHR ''G'', CHR 0xC4, CHR 0xB0, CHR ''F''] = ''image/gif''
   \<and> ToLower ''.XyZ'' \<notin> set knownExtensions
   \<and> ''.XyZ'' \<notin> set knownExtensions
   \<and> getContentType ''.XyZ'' = ''application/octet-stream''
   \<and> getContentTypeByExt ''.XyZ'' = ''application/octet-stream''
   \<and> localSwitch ''.XyZ'' = ''application/octet-stream''
   \<and> s3Switch ''.XyZ'' = ''application/octet-stream''
   \<and> getContentType ''.XyZ'' = getContentTypeByExt ''.XyZ''"
proof -
  have g: "getContentType [CHR ''.'', CHR ''G'', CHR 0xC4, CHR 0xB0, CHR ''F''] = ''image/gif''"
    by (simp add: getContentType_def localSwitch_def lowerByte_def)
  have h: "ToLower ''.XyZ'' \<notin> set knownExtensions"
    by (simp add: lowerByte_def knownExtensions_def)
  have k: "''.XyZ'' \<notin> set knownExtensions"
    by (simp add: knownExtensions_def)
  from content_type_tables_agree [of "''.XyZ''"] g h k show ?thesis by blast
qed

subsection \<open>Path sanitization\<close>

text \<open>
  Claim C1 asks that no request path survives sanitization with a leading parent
  segment. \<^verbatim>\<open>sanitizePath\<close> removes one leading \<open>../\<close> only: on
  \<open>../../etc/passwd\<close> it returns \<open>../etc/passwd\<close>, the handler passes that path on
  (its base path is empty, as \<^verbatim>\<open>GetUploadHandlerConfig\<close> sets it), and the local
  backend with root \<open>/srv/uploads\<close> reads \<open>/srv/etc/passwd\<close>, a file outside its
  root. The custom path of an upload behaves alike.
\<close>

theorem sanitizePath_leaves_parent_segment:
  "sanitizePath ''../../etc/passwd'' = ''../etc/passwd''
   \<and> handlerFullPath [] ''../../etc/passwd'' = ''../etc/passwd''
   \<and> Join [''/srv/uploads'', handlerFullPath [] ''../../etc/passwd''] = ''/srv/etc/passwd''
   \<and> uploadFullPath [] ''../../etc'' ''passwd'' = ''../etc/passwd''
   \<and> Join [''/srv/uploads'', uploadFullPath [] ''../../etc'' ''passwd''] = ''/srv/etc/passwd''
   \<and> Local_Get \<lparr>basePath = ''/srv/uploads'', baseURL = [], createDirectories = True\<rparr>
         \<lparr>entries = [(''/srv'', Directory 0), (''/srv/uploads'', Directory 0),
                     (''/srv/etc'', Directory 0),
                     (''/srv/etc/passwd'', File ''root:x:0:0'' 0)],
          faults = [], dirSize = 4096, clock = 1\<rparr>
         (handlerFullPath [] ''../../etc/passwd'')
       = Inr (''root:x:0:0'',
              \<lparr>Name = ''passwd'', Size = 10, LastModified = 0, URL = ''../etc/passwd'',
               ContentType = ''application/octet-stream'', IsDirectory = False\<rparr>)"
  by code_simp

subsection \<open>Configuration\<close>

lemma Validate_storage_type:
  "StorageType cfg \<noteq> ''local'' \<Longrightarrow> StorageType cfg \<noteq> ''s3'' \<Longrightarrow> Validate cfg \<noteq> []"
  by (simp add: Validate_def)

text \<open>
  Claim C9. A configuration whose storage type is empty is refused by
  \<^verbatim>\<open>NewStorageProvider\<close> with the configuration error (status 400, the validation
  messages as details) and the world is left as it was, so no backend is constructed;
  \<^verbatim>\<open>Validate\<close> reports every storage type other than \<open>local\<close> and \<open>s3\<close>; hence a
  provider is only ever returned for one of these two, and the switch arm for the empty
  storage type is never taken.
\<close>

theorem empty_storage_type_rejected:
  "(StorageType cfg = [] \<longrightarrow>
      NewStorageProvider w cfg
        = (Inl (NewErrorWithDetails StatusBadRequest ''Invalid filesystem configuration''
                  (Validate cfg)), w)
      \<and> Validate cfg \<noteq> []
      \<and> HTTPCode (NewErrorWithDetails StatusBadRequest ''Invalid filesystem configuration''
                     (Validate cfg)) = StatusBadRequest)
   \<and> (StorageType cfg \<noteq> ''local'' \<and> StorageType cfg \<noteq> ''s3'' \<longrightarrow> Validate cfg \<noteq> [])
   \<and> (NewStorageProvider w cfg' = (Inr p, w') \<longrightarrow>
        StorageType cfg' = ''local'' \<or> StorageType cfg' = ''s3'')"
proof (intro conjI impI)
  assume e: "StorageType cfg = []"
  then have v: "Validate cfg \<noteq> []" by (simp add: Validate_storage_type)
  then show "NewStorageProvider w cfg
        = (Inl (NewErrorWithDetails StatusBadRequest ''Invalid filesystem configuration''
                  (Validate cfg)), w)"
    by (simp add: NewStorageProvider_def)
  show "Validate cfg \<noteq> []" by (rule v)
  show "HTTPCode (NewErrorWithDetails StatusBadRequest ''Invalid filesystem configuration''
                     (Validate cfg)) = StatusBadRequest"
    by (simp add: NewErrorWithDetails_def NewError_def)
next
  assume "StorageType cfg \<noteq> ''local'' \<and> StorageType cfg \<noteq> ''s3''"
  then show "Validate cfg \<noteq> []" by (simp add: Validate_storage_type)
next
  assume r: "NewStorageProvider w cfg' = (Inr p, w')"
  show "StorageType cfg' = ''local'' \<or> StorageType cfg' = ''s3''"
  proof (rule ccontr)
    assume "\<not> (StorageType cfg' = ''local'' \<or> StorageType cfg' = ''s3'')"
    then have "Validate cfg' \<noteq> []" by (simp add: Validate_storage_type)
    then have "fst (NewStorageProvider w cfg')
                 = Inl (NewErrorWithDetails StatusBadRequest
                          ''Invalid filesystem configuration'' (Validate cfg'))"
      by (simp add: NewStorageProvider_def)
    with r show False by simp
  qed
qed

theorem empty_storage_type_rejected_witness:
  "StorageType (DefaultConfig\<lparr>StorageType := []\<rparr>) = []
   \<and> StorageType (DefaultConfig\<lparr>StorageType := []\<rparr>) \<noteq> ''local''
   \<and> StorageType (DefaultConfig\<lparr>StorageType := []\<rparr>) \<noteq> ''s3''
   \<and> NewStorageProvider exampleWorld (DefaultConfig\<lparr>StorageType := []\<rparr>)
       = (Inl (AppError ErrCodeBadRequest ''Invalid filesystem configuration''
                 [''Invalid storage type. Must be 'local' or 's3'' @ [CHR 0x27]]
                 StatusBadRequest None), exampleWorld)
   \<and> fst (NewStorageProvider exampleWorld DefaultConfig)
       = Inr \<lparr>storage = LocalBackend \<lparr>basePath = ''./storage/uploads'', baseURL = [],
                                          createDirectories = True\<rparr>\<rparr>
   \<and> StorageType DefaultConfig = ''local''"
proof -
  have ok: "fst (NewStorageProvider exampleWorld DefaultConfig)
       = Inr \<lparr>storage = LocalBackend \<lparr>basePath = ''./storage/uploads'', baseURL = [],
                                          createDirectories = True\<rparr>\<rparr>"
    by code_simp
  then have ok1: "NewStorageProvider exampleWorld DefaultConfig
       = (Inr \<lparr>storage = LocalBackend \<lparr>basePath = ''./storage/uploads'', baseURL = [],
                                          createDirectories = True\<rparr>\<rparr>,
          snd (NewStorageProvider exampleWorld DefaultConfig))"
    by (metis prod.collapse)
  from empty_storage_type_rejected
    [where cfg = "DefaultConfig\<lparr>StorageType := []\<rparr>" and w = exampleWorld
       and cfg' = DefaultConfig
       and p = "\<lparr>storage = LocalBackend \<lparr>basePath = ''./storage/uploads'', baseURL = [],
                                          createDirectories = True\<rparr>\<rparr>"
       and w' = "snd (NewStorageProvider exampleWorld DefaultConfig)"]
    ok ok1
  show ?thesis
    by (simp add: DefaultConfig_def Validate_def error_defs)
qed

subsection \<open>Upload never overwrites\<close>




subsection \<open>Upload, then get\<close>

text \<open>
  Claim C3. After a successful \<^verbatim>\<open>Upload\<close>, \<^verbatim>\<open>Get\<close> on the same path returns the
  uploaded bytes and a record whose size is their number, on both backends.
\<close>

theorem upload_get_roundtrip:
  "(Local_Upload ls fs hdr path = (Inr info, fs') \<longrightarrow>
      (\<exists>src info'. Open hdr = Some src
         \<and> Local_Get ls fs' path = Inr (bytes src, info')
         \<and> Size info' = int (length (bytes src))))
   \<and> (S3_Upload s svc detect upload key = (Inr info2, svc') \<longrightarrow>
      (\<exists>src info'. Open upload = Some src
         \<and> S3_Get s svc' key = Inr (bytes src, info')
         \<and> Size info' = int (length (bytes src))))"
proof (intro conjI impI)
  assume "Local_Upload ls fs hdr path = (Inr info, fs')"
  from Local_Upload_success [OF this]
  obtain src fs2 fi where o: "Open hdr = Some src"
    and f: "fs' = io_Copy fs2 (Join [basePath ls, path]) (bytes src)"
    and st: "os_Stat fs' (Join [basePath ls, path]) = Inr fi"
    by blast
  from st f have "os_Stat (io_Copy fs2 (Join [basePath ls, path]) (bytes src))
                    (Join [basePath ls, path]) = Inr fi" by simp
  from os_Stat_after_Copy [OF this] f
  have g: "\<not> fiIsDir fi" "fiSize fi = int (length (bytes src))"
    "os_Open fs' (Join [basePath ls, path]) = Inr (bytes src)" by simp_all
  from st g have "\<exists>info'. Local_Get ls fs' path = Inr (bytes src, info')
         \<and> Size info' = int (length (bytes src))"
    by (simp add: Local_Get_def)
  with o show "\<exists>src info'. Open hdr = Some src
         \<and> Local_Get ls fs' path = Inr (bytes src, info')
         \<and> Size info' = int (length (bytes src))" by blast
next
  assume "S3_Upload s svc detect upload key = (Inr info2, svc')"
  from S3_Upload_success [OF this]
  obtain src obj where o: "Open upload = Some src" and k: "getFullKey s key \<noteq> []"
    and r: "requestError svc' = None"
    and m: "map_of (objects svc') (getFullKey s key) = Some obj"
    and b: "Body obj = bytes src"
    by blast
  from S3_Get_stored [OF k r m] b
  have "\<exists>info'. S3_Get s svc' key = Inr (bytes src, info')
         \<and> Size info' = int (length (bytes src))"
    by simp
  with o show "\<exists>src info'. Open upload = Some src
         \<and> S3_Get s svc' key = Inr (bytes src, info')
         \<and> Size info' = int (length (bytes src))" by blast
qed

theorem upload_get_roundtrip_witness:
  "(\<exists>info. fst (Local_Upload exampleLocal exampleDisk exampleUpload ''a/b.txt'') = Inr info)
   \<and> (\<exists>info'. Local_Get exampleLocal
                 (snd (Local_Upload exampleLocal exampleDisk exampleUpload ''a/b.txt''))
                 ''a/b.txt'' = Inr (''hello'', info') \<and> Size info' = 5)
   \<and> (\<exists>info. fst (S3_Upload exampleS3 exampleService noSniff exampleUpload ''a/b.txt'')
                = Inr info)
   \<and> (\<exists>info'. S3_Get exampleS3
                 (snd (S3_Upload exampleS3 exampleService noSniff exampleUpload ''a/b.txt''))
                 ''a/b.txt'' = Inr (''hello'', info') \<and> Size info' = 5)"
proof -
  have a0: "fst (Local_Upload exampleLocal exampleDisk exampleUpload ''a/b.txt'')
            = Inr \<lparr>Name = ''b.txt'', Size = 5, LastModified = 7, URL = ''a/b.txt'',
                   ContentType = ''text/plain'', IsDirectory = False\<rparr>"
    by code_simp
  have b0: "fst (S3_Upload exampleS3 exampleService noSniff exampleUpload ''a/b.txt'')
            = Inr \<lparr>Name = ''b.txt'', Size = 5, LastModified = 9,
                   URL = ''https://b.s3.amazonaws.com/a/b.txt'', ContentType = ''text/plain'',
                   IsDirectory = False\<rparr>"
    by code_simp
  have o: "Open exampleUpload = Some \<lparr>bytes = ''hello'', readError = False, seekError = False\<rparr>"
    by (simp add: exampleUpload_def)
  from a0 have a: "\<exists>info. fst (Local_Upload exampleLocal exampleDisk exampleUpload ''a/b.txt'')
                     = Inr info" by simp
  from b0 have b: "\<exists>info. fst (S3_Upload exampleS3 exampleService noSniff exampleUpload
                                  ''a/b.txt'') = Inr info" by simp
  from a obtain i1 where a1: "Local_Upload exampleLocal exampleDisk exampleUpload ''a/b.txt''
      = (Inr i1, snd (Local_Upload exampleLocal exampleDisk exampleUpload ''a/b.txt''))"
    by (metis prod.collapse)
  from b obtain i2 where b1: "S3_Upload exampleS3 exampleService noSniff exampleUpload ''a/b.txt''
      = (Inr i2, snd (S3_Upload exampleS3 exampleService noSniff exampleUpload ''a/b.txt''))"
    by (metis prod.collapse)
  from upload_get_roundtrip
    [where ls = exampleLocal and fs = exampleDisk and hdr = exampleUpload
       and path = "''a/b.txt''" and info = i1
       and fs' = "snd (Local_Upload exampleLocal exampleDisk exampleUpload ''a/b.txt'')"
       and s = exampleS3 and svc = exampleService and detect = noSniff
       and upload = exampleUpload and key = "''a/b.txt''" and ?info2.0 = i2
       and svc' = "snd (S3_Upload exampleS3 exampleService noSniff exampleUpload ''a/b.txt'')"]
    a1 b1 o
  have "(\<exists>info'. Local_Get exampleLocal
                 (snd (Local_Upload exampleLocal exampleDisk exampleUpload ''a/b.txt''))
                 ''a/b.txt'' = Inr (''hello'', info') \<and> Size info' = 5)
   \<and> (\<exists>info'. S3_Get exampleS3
                 (snd (S3_Upload exampleS3 exampleService noSniff exampleUpload ''a/b.txt''))
                 ''a/b.txt'' = Inr (''hello'', info') \<and> Size info' = 5)"
    by simp
  with a b show ?thesis by blast
qed

subsection \<open>Delete, then exists and get\<close>

text \<open>
  Claim C4. After a successful \<^verbatim>\<open>Delete\<close>, \<^verbatim>\<open>Exists\<close> on the same path returns
  false without an error and \<^verbatim>\<open>Get\<close> fails with the \<open>FILE_NOT_FOUND\<close> error of
  status 404, on both backends.
\<close>

theorem delete_then_absent:
  "(Local_Delete ls fs path = (None, fs') \<longrightarrow>
      Local_Exists ls fs' path = (False, None)
      \<and> Local_Get ls fs' path = Inl (FileNotFoundError path))
   \<and> (S3_Delete s svc key = (None, svc') \<longrightarrow>
      S3_Exists s svc' key = (False, None)
      \<and> S3_Get s svc' key = Inl (FileNotFoundError key))
   \<and> HTTPCode (FileNotFoundError path) = StatusNotFound
   \<and> Code (FileNotFoundError path) = ErrCodeFileNotFound"
proof (intro conjI impI)
  assume "Local_Delete ls fs path = (None, fs')"
  then have "os_Remove fs (Join [basePath ls, path]) = (None, fs')"
    by (rule Local_Delete_success)
  then have gone: "os_Stat fs' (Join [basePath ls, path]) = Inl ENOENT"
    by (rule os_Remove_gone)
  from gone show "Local_Exists ls fs' path = (False, None)" by (rule Local_Exists_missing)
  from gone show "Local_Get ls fs' path = Inl (FileNotFoundError path)"
    by (rule Local_Get_missing)
next
  assume "S3_Delete s svc key = (None, svc')"
  then have gone: "getFullKey s key \<noteq> [] \<and> requestError svc' = None
      \<and> map_of (objects svc') (getFullKey s key) = None"
    by (rule S3_Delete_success)
  then show "S3_Exists s svc' key = (False, None)" by (simp add: S3_Exists_missing)
  from gone show "S3_Get s svc' key = Inl (FileNotFoundError key)"
    by (simp add: S3_Get_missing)
next
  show "HTTPCode (FileNotFoundError path) = StatusNotFound"
    by (simp add: FileNotFoundError_def NewCustomError_def)
  show "Code (FileNotFoundError path) = ErrCodeFileNotFound"
    by (simp add: FileNotFoundError_def NewCustomError_def)
qed

theorem delete_then_absent_witness:
  "fst (Local_Delete exampleLocal exampleDisk ''a/old.txt'') = None
   \<and> Local_Exists exampleLocal (snd (Local_Delete exampleLocal exampleDisk ''a/old.txt''))
        ''a/old.txt'' = (False, None)
   \<and> Local_Get exampleLocal (snd (Local_Delete exampleLocal exampleDisk ''a/old.txt''))
        ''a/old.txt'' = Inl (FileNotFoundError ''a/old.txt'')
   \<and> fst (S3_Delete exampleS3 exampleService ''c.txt'') = None
   \<and> S3_Exists exampleS3 (snd (S3_Delete exampleS3 exampleService ''c.txt'')) ''c.txt''
       = (False, None)
   \<and> S3_Get exampleS3 (snd (S3_Delete exampleS3 exampleService ''c.txt'')) ''c.txt''
       = Inl (FileNotFoundError ''c.txt'')"
proof -
  have a: "fst (Local_Delete exampleLocal exampleDisk ''a/old.txt'') = None"
    by code_simp
  have b: "fst (S3_Delete exampleS3 exampleService ''c.txt'') = None"
    by code_simp
  from a have a1: "Local_Delete exampleLocal exampleDisk ''a/old.txt''
      = (None, snd (Local_Delete exampleLocal exampleDisk ''a/old.txt''))"
    by (metis prod.collapse)
  from b have b1: "S3_Delete exampleS3 exampleService ''c.txt''
      = (None, snd (S3_Delete exampleS3 exampleService ''c.txt''))"
    by (metis prod.collapse)
  from delete_then_absent
    [where ls = exampleLocal and fs = exampleDisk and path = "''a/old.txt''"
       and fs' = "snd (Local_Delete exampleLocal exampleDisk ''a/old.txt'')"
       and s = exampleS3 and svc = exampleService and key = "''c.txt''"
       and svc' = "snd (S3_Delete exampleS3 exampleService ''c.txt'')"]
    a a1 b b1
  show ?thesis by simp
qed

subsection \<open>Listing a plain file\<close>

text \<open>
  Claim C5 asks that \<^verbatim>\<open>List\<close> on a plain file returns the one record of that file
  on both backends. The local backend does. The S3 backend appends \<open>/\<close> to the key
  before it lists, finds nothing under \<open>c.txt/\<close>, and its special case for a single
  file is guarded by a test that the prefix does not end in \<open>/\<close>, which fails for every
  prefix that is not empty: the result is the empty list, although the object is there
  (\<^verbatim>\<open>GetInfo\<close> finds it).
\<close>

theorem S3_List_plain_file_is_empty:
  "S3_List exampleS3 exampleService ''c.txt'' = Inr []
   \<and> S3_GetInfo exampleS3 exampleService ''c.txt''
       = Inr \<lparr>Name = ''c.txt'', Size = 3, LastModified = 3,
              URL = ''https://b.s3.amazonaws.com/c.txt'', ContentType = ''text/plain'',
              IsDirectory = False\<rparr>
   \<and> Local_List exampleLocal exampleDisk ''a/old.txt''
       = Inr [\<lparr>Name = ''old.txt'', Size = 3, LastModified = 0, URL = ''a/old.txt'',
               ContentType = ''text/plain'', IsDirectory = False\<rparr>]"
  by code_simp

subsection \<open>Existence checks\<close>

text \<open>
  Claim C7 asks that \<^verbatim>\<open>Exists\<close> swallows the not-found case only. The S3 backend
  decides by the text of the error: a request that the service refuses with status 403
  counts as not found when its text contains \<open>404\<close>, here in the request id, and
  \<^verbatim>\<open>Exists\<close> returns false without an error. The local backend, which tests the
  error itself, reports a refused \<^verbatim>\<open>Stat\<close> as an error.
\<close>

theorem S3_Exists_swallows_forbidden:
  "S3_Exists exampleS3 (exampleService\<lparr>outage := Some forbidden\<rparr>) ''c.txt'' = (False, None)
   \<and> sdkStatus forbidden = StatusForbidden
   \<and> Local_Exists exampleLocal (exampleDisk\<lparr>faults := [(''/tmp/x/a/old.txt'', EACCES)]\<rparr>)
        ''a/old.txt''
       = (False, Some (AppError ErrCodeInternalError
                         ''Failed to check file existence: a/old.txt'' []
                         StatusInternalServerError (Some (OsError EACCES))))"
  by code_simp

subsection \<open>Failures of delete\<close>




subsection \<open>Directories in the object store\<close>

text \<open>
  Claim C10 asks that \<^verbatim>\<open>GetInfo\<close> of the S3 backend answers \<open>FILE_NOT_FOUND\<close> on
  every directory path. At the root, with an empty base prefix, the key is empty: the
  client refuses the request and \<^verbatim>\<open>GetInfo\<close> fails with status 500, although the
  root is a directory that \<^verbatim>\<open>List\<close> shows.
\<close>

theorem S3_GetInfo_root_internal_error:
  "S3_GetInfo exampleS3 exampleService []
     = Inl (AppError ErrCodeInternalError ''Failed to get file metadata from S3: '' []
              StatusInternalServerError (Some (SdkError (emptyKey ''HeadObject''))))
   \<and> getFullKey exampleS3 [] = []
   \<and> map_of (objects exampleService) [] = None
   \<and> S3_List exampleS3 exampleService []
       = Inr [\<lparr>Name = ''a'', Size = 0, LastModified = 9,
                URL = ''https://b.s3.amazonaws.com/a/'',
                ContentType = ''application/directory'', IsDirectory = True\<rparr>,
              \<lparr>Name = ''c.txt'', Size = 3, LastModified = 3,
                URL = ''https://b.s3.amazonaws.com/c.txt'',
                ContentType = ''text/plain'', IsDirectory = False\<rparr>]
   \<and> StatusInternalServerError \<noteq> StatusNotFound"
  by code_simp

text \<open>
  Claim C10 as amended. \<^verbatim>\<open>GetInfo\<close> of the S3 backend never reports a directory: a
  record it returns has \<^verbatim>\<open>IsDirectory\<close> false. On a directory path whose key is not
  empty, a key that is only a prefix of stored keys, it fails with \<open>FILE_NOT_FOUND\<close>
  when the service answers the request. Neither do \<^verbatim>\<open>Get\<close> and \<^verbatim>\<open>Upload\<close> return a
  directory record; such records come from \<^verbatim>\<open>List\<close> alone.
\<close>

theorem S3_GetInfo_never_directory:
  "(S3_GetInfo s svc path = Inr info \<longrightarrow> \<not> IsDirectory info)
   \<and> (getFullKey s dir \<noteq> [] \<and> outage svc = None \<and> transient svc = None
        \<and> map_of (objects svc) (getFullKey s dir) = None \<longrightarrow>
        S3_GetInfo s svc dir = Inl (FileNotFoundError dir))
   \<and> (S3_Get s svc path = Inr (body, info1) \<longrightarrow> \<not> IsDirectory info1)
   \<and> (S3_Upload s svc detect upload key = (Inr info2, svc') \<longrightarrow> \<not> IsDirectory info2)"
proof (intro conjI impI)
  assume "S3_GetInfo s svc path = Inr info"
  then show "\<not> IsDirectory info"
    by (auto simp: S3_GetInfo_def Let_def split: sum.splits if_splits)
next
  assume "getFullKey s dir \<noteq> [] \<and> outage svc = None \<and> transient svc = None
        \<and> map_of (objects svc) (getFullKey s dir) = None"
  then show "S3_GetInfo s svc dir = Inl (FileNotFoundError dir)"
    by (simp add: S3_GetInfo_def s3_HeadObject_missing looksNotFound_headNotFound
        requestError_None)
next
  assume "S3_Get s svc path = Inr (body, info1)"
  then show "\<not> IsDirectory info1"
    by (auto simp: S3_Get_def Let_def split: sum.splits if_splits)
next
  assume "S3_Upload s svc detect upload key = (Inr info2, svc')"
  then show "\<not> IsDirectory info2"
    by (auto simp: S3_Upload_def Let_def split: option.splits sum.splits if_splits prod.splits)
qed

theorem S3_GetInfo_never_directory_witness:
  "S3_GetInfo exampleS3 exampleService ''a'' = Inl (FileNotFoundError ''a'')
   \<and> S3_List exampleS3 exampleService []
       = Inr [\<lparr>Name = ''a'', Size = 0, LastModified = 9,
                URL = ''https://b.s3.amazonaws.com/a/'',
                ContentType = ''application/directory'', IsDirectory = True\<rparr>,
              \<lparr>Name = ''c.txt'', Size = 3, LastModified = 3,
                URL = ''https://b.s3.amazonaws.com/c.txt'',
                ContentType = ''text/plain'', IsDirectory = False\<rparr>]
   \<and> (\<exists>info. S3_GetInfo exampleS3 exampleService ''c.txt'' = Inr info \<and> \<not> IsDirectory info)
   \<and> (\<exists>info. S3_Get exampleS3 exampleService ''c.txt'' = Inr (''old'', info)
          \<and> \<not> IsDirectory info)
   \<and> (\<exists>info. fst (S3_Upload exampleS3 exampleService noSniff exampleUpload ''a/b.txt'')
                = Inr info \<and> \<not> IsDirectory info)"
proof -
  have a: "getFullKey exampleS3 ''a'' \<noteq> [] \<and> outage exampleService = None
           \<and> transient exampleService = None
           \<and> map_of (objects exampleService) (getFullKey exampleS3 ''a'') = None"
    by (simp add: example_defs getFullKey_def)
  have l: "S3_List exampleS3 exampleService []
       = Inr [\<lparr>Name = ''a'', Size = 0, LastModified = 9,
                URL = ''https://b.s3.amazonaws.com/a/'',
                ContentType = ''application/directory'', IsDirectory = True\<rparr>,
              \<lparr>Name = ''c.txt'', Size = 3, LastModified = 3,
                URL = ''https://b.s3.amazonaws.com/c.txt'',
                ContentType = ''text/plain'', IsDirectory = False\<rparr>]"
    by code_simp
  have i: "S3_GetInfo exampleS3 exampleService ''c.txt''
           = Inr \<lparr>Name = ''c.txt'', Size = 3, LastModified = 3,
                  URL = ''https://b.s3.amazonaws.com/c.txt'', ContentType = ''text/plain'',
                  IsDirectory = False\<rparr>"
    by code_simp
  have j: "S3_Get exampleS3 exampleService ''c.txt''
           = Inr (''old'',
                  \<lparr>Name = ''c.txt'', Size = 3, LastModified = 3,
                   URL = ''https://b.s3.amazonaws.com/c.txt'', ContentType = ''text/plain'',
                   IsDirectory = False\<rparr>)"
    by code_simp
  have k: "fst (S3_Upload exampleS3 exampleService noSniff exampleUpload ''a/b.txt'')
           = Inr \<lparr>Name = ''b.txt'', Size = 5, LastModified = 9,
                  URL = ''https://b.s3.amazonaws.com/a/b.txt'', ContentType = ''text/plain'',
                  IsDirectory = False\<rparr>"
    by code_simp
  then have k1: "S3_Upload exampleS3 exampleService noSniff exampleUpload ''a/b.txt''
        = (Inr \<lparr>Name = ''b.txt'', Size = 5, LastModified = 9,
                  URL = ''https://b.s3.amazonaws.com/a/b.txt'', ContentType = ''text/plain'',
                  IsDirectory = False\<rparr>,
           snd (S3_Upload exampleS3 exampleService noSniff exampleUpload ''a/b.txt''))"
    by (metis prod.collapse)
  from S3_GetInfo_never_directory
    [where s = exampleS3 and svc = exampleService and path = "''c.txt''"
       and info = "\<lparr>Name = ''c.txt'', Size = 3, LastModified = 3,
                  URL = ''https://b.s3.amazonaws.com/c.txt'', ContentType = ''text/plain'',
                  IsDirectory = False\<rparr>"
       and dir = "''a''" and body = "''old''"
       and ?info1.0 = "\<lparr>Name = ''c.txt'', Size = 3, LastModified = 3,
                  URL = ''https://b.s3.amazonaws.com/c.txt'', ContentType = ''text/plain'',
                  IsDirectory = False\<rparr>"
       and detect = noSniff and upload = exampleUpload and key = "''a/b.txt''"
       and ?info2.0 = "\<lparr>Name = ''b.txt'', Size = 5, LastModified = 9,
                  URL = ''https://b.s3.amazonaws.com/a/b.txt'', ContentType = ''text/plain'',
                  IsDirectory = False\<rparr>"
       and svc' = "snd (S3_Upload exampleS3 exampleService noSniff exampleUpload ''a/b.txt'')"]
    a i j k k1 l
  show ?thesis by simp
qed

end
